theory Spec2Isabelle
  imports Main "HOL-Library.Word"
begin


section \<open>fxload.c: the two entry points\<close>

text \<open>
  \<^verbatim>\<open>src/examples/fxload.c\<close> holds two versions of the program, each with its own
  \<^verbatim>\<open>logerror\<close> and \<^verbatim>\<open>main\<close>: lines 1-291 (device identification through a table of
  known devices) and lines 292-527 (vid:pid only).  \<^verbatim>\<open>ezusb.h\<close> and \<^verbatim>\<open>ezusb.c\<close>
  (\<^verbatim>\<open>ezusb_load_ram\<close>, \<^verbatim>\<open>ezusb_load_eeprom\<close>, \<^verbatim>\<open>verbose\<close>, the \<^verbatim>\<open>FX_*\<close> macros), libusb and
  the C library are not part of the file: what they answer is a field of the environment
  record below, and what \<^verbatim>\<open>main\<close> does to the outside is a trace of events.
\<close>

subsection \<open>Data\<close>

type_synonym uint16 = "16 word"
type_synonym unsigned = "32 word"

text \<open>One result of \<^verbatim>\<open>getopt(argc, argv, "vV?D:I:c:s:t:")\<close>; \<open>Opt_other\<close> is the
  \<^verbatim>\<open>'?'\<close> that getopt returns for an unknown option or a missing argument.\<close>

datatype opt =
    Opt_D string | Opt_I string | Opt_V | Opt_c string | Opt_s string | Opt_t string
  | Opt_v | Opt_other

text \<open>The local variables of \<^verbatim>\<open>main\<close> that the option loop sets (lines 89-94; the second
  version calls them \<^verbatim>\<open>device_path\<close>, \<^verbatim>\<open>ihex_path\<close> and \<^verbatim>\<open>stage1\<close>, lines 375-380), and the
  global \<^verbatim>\<open>verbose\<close>.  A \<^verbatim>\<open>NULL\<close> pointer is \<open>None\<close>.\<close>

record args =
  device_id :: "string option"
  firmware_path :: "string option"
  loader_path :: "string option"
  type :: "string option"
  config :: int
  verbose :: int

text \<open>An entry of \<^verbatim>\<open>fx_known_device known_device[] = FX_KNOWN_DEVICES\<close> (line 88); the
  struct is declared in ezusb.h, its fields are the ones \<^verbatim>\<open>main\<close> reads.\<close>

record fx_known_device =
  kd_vid :: uint16
  kd_pid :: uint16
  kd_type :: int
  designation :: string

text \<open>An entry of the list \<^verbatim>\<open>libusb_get_device_list\<close> returns: what
  \<^verbatim>\<open>libusb_get_device_descriptor\<close> and \<^verbatim>\<open>libusb_open\<close> answer for it.\<close>

record usb_device =
  desc_status :: int
  idVendor :: uint16
  idProduct :: uint16
  open_status :: int

datatype handle = Handle_dev nat | Handle_vid_pid uint16 uint16

text \<open>What the program does to the outside, in order.  A diagnostic is recorded by its
  format string, without the final newline and without quotation marks; its arguments are
  not rendered.  The two download events carry the arguments of the call and the status
  it returned.  Calls that only read (\<^verbatim>\<open>libusb_get_device_descriptor\<close>,
  \<^verbatim>\<open>libusb_error_name\<close>) leave no event.\<close>

datatype event =
    Stdout string | Stderr string | Syslog string
  | Libusb_init | Libusb_set_debug int | Libusb_get_device_list | Libusb_free_device_list
  | Libusb_open nat | Libusb_open_device_with_vid_pid uint16 uint16
  | Libusb_claim_interface | Libusb_detach_kernel_driver
  | Ezusb_load_ram handle string int int int
  | Ezusb_load_eeprom handle string "int + string" int int
  | Libusb_release_interface | Libusb_close | Libusb_exit

text \<open>The build: which of \<^verbatim>\<open>_WIN32\<close> and \<^verbatim>\<open>__linux__\<close> the preprocessor sees.\<close>

record platform =
  win32 :: bool
  linux :: bool

text \<open>
  The collaborators.  \<open>'w\<close> is the state of the device as the download functions see
  and change it.  \<open>strtoul\<close> gives the value of the \<^verbatim>\<open>unsigned long\<close> that
  \<^verbatim>\<open>strtoul(optarg, NULL, 0)\<close> returns; \<open>sscanf_vid_pid\<close> the two values read when
  \<^verbatim>\<open>sscanf(s, "%x:%x", &vid, &pid)\<close> returns 2, and \<open>None\<close> when it does not;
  \<open>verbose_init\<close> the value of the global \<^verbatim>\<open>verbose\<close> when \<^verbatim>\<open>main\<close> starts.  \<^verbatim>\<open>FX_TYPE_MAX\<close> is
  the length of \<open>FX_TYPE_NAMES\<close>.  A libusb status is negative on failure;
  \<open>libusb_get_device_list\<close> is \<open>None\<close> when the call returns a negative value,
  \<open>libusb_open_device_with_vid_pid\<close> is false when it returns \<^verbatim>\<open>NULL\<close>, and
  \<open>libusb_claim_interface n\<close> is the status of the attempt number \<open>n\<close>, from 0.
  \<open>ezusb_load_eeprom_by_name\<close> is the \<^verbatim>\<open>ezusb_load_eeprom\<close> of the second version, which
  takes the type by its name.
\<close>

record 'w env =
  getenv_DEVICE :: "string option"
  FXLOAD_VERSION :: string
  strtoul :: "string \<Rightarrow> nat"
  sscanf_vid_pid :: "string \<Rightarrow> (unsigned \<times> unsigned) option"
  verbose_init :: int
  FX_TYPE_NAMES :: "string list"
  FX_KNOWN_DEVICES :: "fx_known_device list"
  FX_TYPE_UNDEFINED :: int
  libusb_init :: int
  libusb_get_device_list :: "usb_device list option"
  libusb_open_device_with_vid_pid :: "uint16 \<Rightarrow> uint16 \<Rightarrow> bool"
  libusb_claim_interface :: "nat \<Rightarrow> int"
  ezusb_load_ram :: "handle \<Rightarrow> string \<Rightarrow> int \<Rightarrow> int \<Rightarrow> 'w \<Rightarrow> int \<times> 'w"
  ezusb_load_eeprom :: "handle \<Rightarrow> string \<Rightarrow> int \<Rightarrow> int \<Rightarrow> 'w \<Rightarrow> int \<times> 'w"
  ezusb_load_eeprom_by_name :: "handle \<Rightarrow> string \<Rightarrow> string \<Rightarrow> int \<Rightarrow> 'w \<Rightarrow> int \<times> 'w"

subsection \<open>logerror (lines 68-84 and 355-371)\<close>

text \<open>\<^verbatim>\<open>static bool dosyslog = false;\<close> (lines 57, 348): nothing in the file assigns it.\<close>

definition dosyslog :: bool where
  "dosyslog = False"

text \<open>
  After preprocessing, the body is \<^verbatim>\<open>vfprintf(stderr, format, ap); va_end(ap);\<close> when
  \<^verbatim>\<open>_WIN32\<close> is defined, and
  \<^verbatim>\<open>if (dosyslog) vsyslog(LOG_ERR, format, ap); else va_end(ap);\<close> when it is not: the
  \<^verbatim>\<open>vfprintf\<close> stands between \<^verbatim>\<open>#else\<close> and \<^verbatim>\<open>#endif\<close>.
\<close>

definition logerror :: "platform \<Rightarrow> string \<Rightarrow> event list" where
  "logerror P format =
     (if \<not> win32 P then (if dosyslog then [Syslog format] else [])
      else [Stderr format])"

subsection \<open>The first version of main (lines 86-291)\<close>

text \<open>\<^verbatim>\<open>config = strtoul(optarg, NULL, 0)\<close>: the \<^verbatim>\<open>unsigned long\<close> is converted to the
  32-bit \<^verbatim>\<open>int\<close> by reduction modulo \<open>2 ^ 32\<close>.\<close>

definition int_of_ulong :: "nat \<Rightarrow> int" where
  "int_of_ulong n = sint (word_of_nat n :: 32 word)"

text \<open>How the option loop ends: at \<^verbatim>\<open>EOF\<close> with the values read, at the \<^verbatim>\<open>return 0\<close> of
  \<^verbatim>\<open>-V\<close>, or at a \<^verbatim>\<open>goto usage\<close>.\<close>

datatype scan = Scanned args | Return_0 | Goto_usage

text \<open>The initializers of lines 89-95 (and 375-381).\<close>

definition initial_args :: "'w env \<Rightarrow> args" where
  "initial_args E =
     \<lparr>device_id = getenv_DEVICE E, firmware_path = None, loader_path = None, type = None,
      config = - 1, verbose = verbose_init E\<rparr>"

text \<open>The \<^verbatim>\<open>while ((opt = getopt(...)) != EOF) switch (opt)\<close> of lines 100-139.\<close>

fun getopt_loop :: "platform \<Rightarrow> 'w env \<Rightarrow> opt list \<Rightarrow> args \<Rightarrow> scan \<times> event list" where
  "getopt_loop P E [] a = (Scanned a, [])"
| "getopt_loop P E (Opt_D optarg # os) a = getopt_loop P E os (a\<lparr>device_id := Some optarg\<rparr>)"
| "getopt_loop P E (Opt_I optarg # os) a =
     getopt_loop P E os (a\<lparr>firmware_path := Some optarg\<rparr>)"
| "getopt_loop P E (Opt_V # os) a = (Return_0, [Stdout (FXLOAD_VERSION E)])"
| "getopt_loop P E (Opt_c optarg # os) a =
     (let c = int_of_ulong (strtoul E optarg) in
      if c < 0 \<or> c > 255 then (Goto_usage, logerror P ''illegal config byte: %s'')
      else getopt_loop P E os (a\<lparr>config := c\<rparr>))"
| "getopt_loop P E (Opt_s optarg # os) a =
     getopt_loop P E os (a\<lparr>loader_path := Some optarg\<rparr>)"
| "getopt_loop P E (Opt_t optarg # os) a = getopt_loop P E os (a\<lparr>type := Some optarg\<rparr>)"
| "getopt_loop P E (Opt_v # os) a = getopt_loop P E os (a\<lparr>verbose := verbose a + 1\<rparr>)"
| "getopt_loop P E (Opt_other # os) a = (Goto_usage, [])"

text \<open>The text after the label \<^verbatim>\<open>usage:\<close> (lines 155-157).\<close>

definition usage :: "string \<Rightarrow> event list" where
  "usage argv0 =
     [Stderr (''usage: '' @ argv0 @ '' [-vV] [-t type] [-D vid:pid] -I firmware''),
      Stderr ''      [-s loader] [-c config_byte]'',
      Stderr ''      type: one of an21, fx, fx2, fx2lp, fx3'']"

text \<open>Lines 141-150: \<open>Some\<close> of the diagnostic when control goes to \<^verbatim>\<open>usage\<close>.\<close>

definition check_args :: "platform \<Rightarrow> args \<Rightarrow> event list option" where
  "check_args P a =
     (if config a \<ge> 0 \<and> type a = None
      then Some (logerror P ''must specify microcontroller type to write EEPROM!'')
      else if config a \<ge> 0 \<and> (loader_path a = None \<or> firmware_path a = None)
      then Some (logerror P ''need 2nd stage loader and firmware to write EEPROM!'')
      else None)"

text \<open>Lines 168-173: the first index \<open>i\<close> with \<^verbatim>\<open>strcmp(type, fx_name[i]) == 0\<close>,
  counted from \<open>i\<close>.\<close>

fun find_type :: "string \<Rightarrow> string list \<Rightarrow> nat \<Rightarrow> nat option" where
  "find_type t [] i = None"
| "find_type t (n # ns) i = (if t = n then Some i else find_type t ns (Suc i))"

text \<open>
  The inner loop of lines 200-219 over the table, for one device descriptor: the first
  entry at which one of the three branches breaks, with \<open>fx_type\<close>, \<open>vid\<close> and \<open>pid\<close> as
  that branch leaves them.  \<open>tn\<close> is \<^verbatim>\<open>type == NULL\<close> and \<open>dn\<close> is
  \<^verbatim>\<open>device_id == NULL\<close>.
\<close>

fun match_known ::
  "bool \<Rightarrow> bool \<Rightarrow> int \<Rightarrow> unsigned \<Rightarrow> unsigned \<Rightarrow> usb_device \<Rightarrow> fx_known_device list
    \<Rightarrow> (fx_known_device \<times> int \<times> unsigned \<times> unsigned) option" where
  "match_known tn dn fx_type vid pid desc [] = None"
| "match_known tn dn fx_type vid pid desc (k # ks) =
     (if idVendor desc = kd_vid k \<and> idProduct desc = kd_pid k then
        if tn \<and> dn then Some (k, kd_type k, ucast (idVendor desc), ucast (idProduct desc))
        else if tn \<and> vid = ucast (idVendor desc) \<and> pid = ucast (idProduct desc)
        then Some (k, kd_type k, vid, pid)
        else if dn \<and> fx_type = kd_type k
        then Some (k, fx_type, ucast (idVendor desc), ucast (idProduct desc))
        else match_known tn dn fx_type vid pid desc ks
      else match_known tn dn fx_type vid pid desc ks)"

text \<open>The outer loop of lines 195-227 over the device list, from index \<open>i\<close>: the
  diagnostics it logs and, unless \<^verbatim>\<open>dev == NULL\<close> at its end, the index of the device it
  stops at, that device and the values matched there.\<close>

fun find_known_device ::
  "platform \<Rightarrow> fx_known_device list \<Rightarrow> int \<Rightarrow> bool \<Rightarrow> bool \<Rightarrow> int \<Rightarrow> unsigned \<Rightarrow> unsigned
    \<Rightarrow> nat \<Rightarrow> usb_device list
    \<Rightarrow> event list
      \<times> (nat \<times> usb_device \<times> fx_known_device \<times> int \<times> unsigned \<times> unsigned) option" where
  "find_known_device P known v tn dn fx_type vid pid i [] = ([], None)"
| "find_known_device P known v tn dn fx_type vid pid i (dev # devs) =
     (if desc_status dev \<ge> 0 then
        (let tr = (if v \<ge> 2 then logerror P ''trying to match against %04x:%04x'' else [])
         in case match_known tn dn fx_type vid pid dev known of
              Some m \<Rightarrow>
                (tr @ (if v \<noteq> 0 then logerror P ''found device %s [%04x:%04x]'' else []),
                 Some (i, dev, m))
            | None \<Rightarrow>
                (case find_known_device P known v tn dn fx_type vid pid (Suc i) devs of
                   (tr', r) \<Rightarrow> (tr @ tr', r)))
      else find_known_device P known v tn dn fx_type vid pid (Suc i) devs)"

text \<open>Line 161: \<^verbatim>\<open>vid\<close> and \<^verbatim>\<open>pid\<close> start at 0 (line 95); \<open>None\<close> when
  \<^verbatim>\<open>sscanf(device_id, "%x:%x", &vid, &pid) != 2\<close>.\<close>

definition scan_device_id :: "'w env \<Rightarrow> args \<Rightarrow> (unsigned \<times> unsigned) option" where
  "scan_device_id E a =
     (case device_id a of None \<Rightarrow> Some (0, 0) | Some s \<Rightarrow> sscanf_vid_pid E s)"

text \<open>Lines 166-178: \<^verbatim>\<open>fx_type\<close> after "determine the target type"; \<open>None\<close> when
  \<^verbatim>\<open>i >= FX_TYPE_MAX\<close>.\<close>

definition target_type :: "'w env \<Rightarrow> args \<Rightarrow> int option" where
  "target_type E a =
     (case type a of
        None \<Rightarrow> Some (FX_TYPE_UNDEFINED E)
      | Some t \<Rightarrow> map_option int (find_type t (FX_TYPE_NAMES E) 0))"

text \<open>Lines 188-247: open the device.  \<open>None\<close> is a \<^verbatim>\<open>return -1\<close>, directly or through
  \<^verbatim>\<open>usage\<close>; otherwise the handle and \<^verbatim>\<open>fx_type\<close>.\<close>

definition open_device ::
  "platform \<Rightarrow> 'w env \<Rightarrow> string \<Rightarrow> args \<Rightarrow> int \<Rightarrow> unsigned \<Rightarrow> unsigned
    \<Rightarrow> event list \<times> (handle \<times> int) option" where
  "open_device P E argv0 a fx_type vid pid =
     (if type a = None \<or> device_id a = None then
        (case libusb_get_device_list E of
           None \<Rightarrow>
             ([Libusb_get_device_list] @ logerror P ''libusb_get_device_list() failed: %s''
                @ [Libusb_exit], None)
         | Some devs \<Rightarrow>
             (case find_known_device P (FX_KNOWN_DEVICES E) (verbose a) (type a = None)
                     (device_id a = None) fx_type vid pid 0 devs of
                (tr, None) \<Rightarrow>
                  ([Libusb_get_device_list] @ tr @ [Libusb_free_device_list]
                     @ logerror P
                         ''could not find a known device - please specify type and/or vid:pid''
                     @ usage argv0, None)
              | (tr, Some (i, dev, k, fx_type', vid', pid')) \<Rightarrow>
                  if open_status dev < 0
                  then ([Libusb_get_device_list] @ tr @ [Libusb_open i]
                          @ logerror P ''libusb_open() failed: %s'' @ [Libusb_exit], None)
                  else ([Libusb_get_device_list] @ tr @ [Libusb_open i, Libusb_free_device_list],
                        Some (Handle_dev i, fx_type'))))
      else if libusb_open_device_with_vid_pid E (ucast vid) (ucast pid)
      then ([Libusb_open_device_with_vid_pid (ucast vid) (ucast pid)],
            Some (Handle_vid_pid (ucast vid) (ucast pid), fx_type))
      else ([Libusb_open_device_with_vid_pid (ucast vid) (ucast pid)]
              @ logerror P ''libusb_open() failed'' @ [Libusb_exit], None))"

text \<open>Lines 248-256 (and 476-484): \<^verbatim>\<open>status\<close> after claiming interface 0;
  \<^verbatim>\<open>LIBUSB_SUCCESS\<close> is 0.  The environment answers the first attempt at 0 and the one
  after detaching the kernel driver at 1.\<close>

definition claim_interface :: "platform \<Rightarrow> 'w env \<Rightarrow> event list \<times> int" where
  "claim_interface P E =
     (if linux P \<and> libusb_claim_interface E 0 \<noteq> 0
      then ([Libusb_claim_interface, Libusb_detach_kernel_driver, Libusb_claim_interface],
            libusb_claim_interface E 1)
      else ([Libusb_claim_interface], libusb_claim_interface E 0))"

text \<open>Lines 266-284: the one or two download stages; \<^verbatim>\<open>status\<close> at the label \<^verbatim>\<open>out\<close>.\<close>

definition download ::
  "platform \<Rightarrow> 'w env \<Rightarrow> args \<Rightarrow> string \<Rightarrow> handle \<Rightarrow> int \<Rightarrow> 'w \<Rightarrow> int \<times> event list \<times> 'w" where
  "download P E a firmware device fx_type w =
     (case loader_path a of
        Some loader \<Rightarrow>
          (case ezusb_load_ram E device loader fx_type 0 w of
             (status, w1) \<Rightarrow>
               (let tr1 = (if verbose a \<noteq> 0
                           then logerror P ''1st stage: load 2nd stage loader'' else [])
                          @ [Ezusb_load_ram device loader fx_type 0 status]
                in if status \<noteq> 0 then (status, tr1, w1)
                   else if config a \<ge> 0 then
                     (case ezusb_load_eeprom E device firmware fx_type (config a) w1 of
                        (status2, w2) \<Rightarrow>
                          (status2,
                           tr1 @ [Ezusb_load_eeprom device firmware (Inl fx_type) (config a)
                                    status2],
                           w2))
                   else
                     (case ezusb_load_ram E device firmware fx_type 1 w1 of
                        (status2, w2) \<Rightarrow>
                          (status2, tr1 @ [Ezusb_load_ram device firmware fx_type 1 status2],
                           w2))))
      | None \<Rightarrow>
          (case ezusb_load_ram E device firmware fx_type 0 w of
             (status, w1) \<Rightarrow>
               (status,
                (if verbose a \<noteq> 0 then logerror P ''single stage: load on-chip memory''
                 else [])
                  @ [Ezusb_load_ram device firmware fx_type 0 status],
                w1)))"

text \<open>The label \<^verbatim>\<open>out\<close> (lines 286-289 and 522-525).\<close>

definition out :: "event list" where
  "out = [Libusb_release_interface, Libusb_close, Libusb_exit]"

text \<open>Lines 86-264, all that \<^verbatim>\<open>main\<close> does before the first download call: \<open>Inl\<close> the
  value returned and the trace when it returns there, \<open>Inr\<close> the option values, the
  firmware path, the claimed handle, \<^verbatim>\<open>fx_type\<close> and the trace so far.\<close>

definition startup ::
  "platform \<Rightarrow> 'w env \<Rightarrow> string \<Rightarrow> opt list
    \<Rightarrow> int \<times> event list + args \<times> string \<times> handle \<times> int \<times> event list" where
  "startup P E argv0 opts =
     (case getopt_loop P E opts (initial_args E) of
        (Return_0, tr) \<Rightarrow> Inl (0, tr)
      | (Goto_usage, tr) \<Rightarrow> Inl (- 1, tr @ usage argv0)
      | (Scanned a, tr) \<Rightarrow>
          (case check_args P a of
             Some msg \<Rightarrow> Inl (- 1, tr @ msg @ usage argv0)
           | None \<Rightarrow>
          (case firmware_path a of
             None \<Rightarrow> Inl (- 1, tr @ logerror P ''no firmware specified!'' @ usage argv0)
           | Some firmware \<Rightarrow>
          (case scan_device_id E a of
             None \<Rightarrow>
               Inl (- 1,
                    tr @ [Stderr ''please specify VID & PID as vid:pid in hexadecimal format''])
           | Some (vid, pid) \<Rightarrow>
          (case target_type E a of
             None \<Rightarrow> Inl (- 1, tr @ logerror P ''illegal microcontroller type: %s'' @ usage argv0)
           | Some fx_type \<Rightarrow>
          if libusb_init E < 0
          then Inl (- 1, tr @ [Libusb_init] @ logerror P ''libusb_init() failed: %s'')
          else
          (case open_device P E argv0 a fx_type vid pid of
             (tr2, None) \<Rightarrow> Inl (- 1, tr @ [Libusb_init, Libusb_set_debug (verbose a)] @ tr2)
           | (tr2, Some (device, fx_type')) \<Rightarrow>
          (case claim_interface P E of
             (tr3, status) \<Rightarrow>
               if status \<noteq> 0
               then Inl (- 1,
                         tr @ [Libusb_init, Libusb_set_debug (verbose a)] @ tr2 @ tr3
                           @ logerror P ''libusb_claim_interface failed: %s'' @ [Libusb_exit])
               else Inr (a, firmware, device, fx_type',
                         tr @ [Libusb_init, Libusb_set_debug (verbose a)] @ tr2 @ tr3
                           @ (if verbose a \<noteq> 0 then logerror P ''microcontroller type: %s''
                              else [])))))))))"

text \<open>\<^verbatim>\<open>main\<close>, lines 86-291: the value returned, the trace and the device state.\<close>

definition main :: "platform \<Rightarrow> 'w env \<Rightarrow> string \<Rightarrow> opt list \<Rightarrow> 'w \<Rightarrow> int \<times> event list \<times> 'w" where
  "main P E argv0 opts w =
     (case startup P E argv0 opts of
        Inl (ret, tr) \<Rightarrow> (ret, tr, w)
      | Inr (a, firmware, device, fx_type, tr) \<Rightarrow>
          (case download P E a firmware device fx_type w of
             (status, tr4, w') \<Rightarrow> (status, tr @ tr4 @ out, w')))"

subsection \<open>The second version of main (lines 373-527)\<close>

text \<open>The option loop of lines 384-431: \<^verbatim>\<open>-t\<close> is checked against the four names as
  it is read.\<close>

fun getopt_loop2 :: "platform \<Rightarrow> 'w env \<Rightarrow> opt list \<Rightarrow> args \<Rightarrow> scan \<times> event list" where
  "getopt_loop2 P E [] a = (Scanned a, [])"
| "getopt_loop2 P E (Opt_D optarg # os) a =
     getopt_loop2 P E os (a\<lparr>device_id := Some optarg\<rparr>)"
| "getopt_loop2 P E (Opt_I optarg # os) a =
     getopt_loop2 P E os (a\<lparr>firmware_path := Some optarg\<rparr>)"
| "getopt_loop2 P E (Opt_V # os) a = (Return_0, [Stdout (FXLOAD_VERSION E)])"
| "getopt_loop2 P E (Opt_c optarg # os) a =
     (let c = int_of_ulong (strtoul E optarg) in
      if c < 0 \<or> c > 255 then (Goto_usage, logerror P ''illegal config byte: %s'')
      else getopt_loop2 P E os (a\<lparr>config := c\<rparr>))"
| "getopt_loop2 P E (Opt_s optarg # os) a =
     getopt_loop2 P E os (a\<lparr>loader_path := Some optarg\<rparr>)"
| "getopt_loop2 P E (Opt_t optarg # os) a =
     (if optarg \<noteq> ''an21'' \<and> optarg \<noteq> ''fx'' \<and> optarg \<noteq> ''fx2'' \<and> optarg \<noteq> ''fx2lp''
      then (Goto_usage, logerror P ''illegal microcontroller type: %s'')
      else getopt_loop2 P E os (a\<lparr>type := Some optarg\<rparr>))"
| "getopt_loop2 P E (Opt_v # os) a = getopt_loop2 P E os (a\<lparr>verbose := verbose a + 1\<rparr>)"
| "getopt_loop2 P E (Opt_other # os) a = (Goto_usage, [])"

text \<open>The text after the label \<^verbatim>\<open>usage:\<close> (lines 449-455), one event for each line
  of output.\<close>

definition usage2 :: "string \<Rightarrow> event list" where
  "usage2 argv0 =
     [Stderr (''usage: '' @ argv0 @ '' [-vV] [-t type] [-D devpath]''),
      Stderr ''                [-I firmware_hexfile] [-s loader] [-c config_byte]'',
      Stderr ''... [-D vid:pid] overrides DEVICE= in env'',
      Stderr ''... device types:  one of an21, fx, fx2, fx2lp'']"

text \<open>Lines 433-444.\<close>

definition check_args2 :: "platform \<Rightarrow> args \<Rightarrow> event list option" where
  "check_args2 P a =
     (if config a \<ge> 0 \<and> type a = None
      then Some (logerror P ''must specify microcontroller type %s'')
      else if config a \<ge> 0 \<and> (loader_path a = None \<or> firmware_path a = None)
      then Some (logerror P ''need 2nd stage loader and firmware %s'')
      else None)"

text \<open>Lines 491-497: \<^verbatim>\<open>type\<close> and \<^verbatim>\<open>fx2\<close> as the download calls get them.\<close>

definition type_and_fx2 :: "args \<Rightarrow> string \<times> int" where
  "type_and_fx2 a =
     (case type a of
        None \<Rightarrow> (''fx'', 0)
      | Some t \<Rightarrow> if t = ''fx2lp'' then (t, 2) else (t, if t = ''fx2'' then 1 else 0))"

text \<open>Lines 502-520.\<close>

definition download2 ::
  "platform \<Rightarrow> 'w env \<Rightarrow> args \<Rightarrow> string \<Rightarrow> handle \<Rightarrow> string \<Rightarrow> int \<Rightarrow> 'w
    \<Rightarrow> int \<times> event list \<times> 'w" where
  "download2 P E a ihex_path device type' fx2 w =
     (case loader_path a of
        Some stage1 \<Rightarrow>
          (case ezusb_load_ram E device stage1 fx2 0 w of
             (status, w1) \<Rightarrow>
               (let tr1 = (if verbose a \<noteq> 0
                           then logerror P ''1st stage:  load 2nd stage loader'' else [])
                          @ [Ezusb_load_ram device stage1 fx2 0 status]
                in if status \<noteq> 0 then (status, tr1, w1)
                   else if config a \<ge> 0 then
                     (case ezusb_load_eeprom_by_name E device ihex_path type' (config a) w1 of
                        (status2, w2) \<Rightarrow>
                          (status2,
                           tr1 @ [Ezusb_load_eeprom device ihex_path (Inr type') (config a)
                                    status2],
                           w2))
                   else
                     (case ezusb_load_ram E device ihex_path fx2 1 w1 of
                        (status2, w2) \<Rightarrow>
                          (status2, tr1 @ [Ezusb_load_ram device ihex_path fx2 1 status2],
                           w2))))
      | None \<Rightarrow>
          (case ezusb_load_ram E device ihex_path fx2 0 w of
             (status, w1) \<Rightarrow>
               (status,
                (if verbose a \<noteq> 0 then logerror P ''single stage:  load on-chip memory''
                 else [])
                  @ [Ezusb_load_ram device ihex_path fx2 0 status],
                w1)))"

text \<open>Lines 373-500, all that the second \<^verbatim>\<open>main\<close> does before the first download call:
  \<open>Inl\<close> the value returned and the trace when it returns there, \<open>Inr\<close> the option values,
  the firmware path, the claimed handle, \<^verbatim>\<open>type\<close>, \<^verbatim>\<open>fx2\<close> and the trace so far.\<close>

definition startup2 ::
  "platform \<Rightarrow> 'w env \<Rightarrow> string \<Rightarrow> opt list
    \<Rightarrow> int \<times> event list + args \<times> string \<times> handle \<times> string \<times> int \<times> event list" where
  "startup2 P E argv0 opts =
     (case getopt_loop2 P E opts (initial_args E) of
        (Return_0, tr) \<Rightarrow> Inl (0, tr)
      | (Goto_usage, tr) \<Rightarrow> Inl (- 1, tr @ usage2 argv0)
      | (Scanned a, tr) \<Rightarrow>
          (case check_args2 P a of
             Some msg \<Rightarrow> Inl (- 1, tr @ msg @ usage2 argv0)
           | None \<Rightarrow>
          (case (device_id a, firmware_path a) of
             (None, _) \<Rightarrow> Inl (- 1, tr @ logerror P ''no %s specified!'' @ usage2 argv0)
           | (Some device_path, None) \<Rightarrow>
               Inl (- 1, tr @ logerror P ''no %s specified!'' @ usage2 argv0)
           | (Some device_path, Some ihex_path) \<Rightarrow>
          (case sscanf_vid_pid E device_path of
             None \<Rightarrow>
               Inl (- 1,
                    tr @ [Stderr ''please specify VID & PID as vid:pid in hexadecimal format''])
           | Some (vid, pid) \<Rightarrow>
          if libusb_init E < 0
          then Inl (- 1, tr @ [Libusb_init] @ logerror P ''libusb_init() failed: %s'')
          else if \<not> libusb_open_device_with_vid_pid E (ucast vid) (ucast pid)
          then Inl (- 1,
                    tr @ [Libusb_init, Libusb_set_debug (verbose a),
                          Libusb_open_device_with_vid_pid (ucast vid) (ucast pid)]
                      @ logerror P ''libusb_open_device() failed'' @ [Libusb_exit])
          else
          (case claim_interface P E of
             (tr3, status) \<Rightarrow>
               if status \<noteq> 0
               then Inl (- 1,
                         tr @ [Libusb_init, Libusb_set_debug (verbose a),
                               Libusb_open_device_with_vid_pid (ucast vid) (ucast pid)] @ tr3
                           @ logerror P ''libusb_claim_interface failed: %s'' @ [Libusb_exit])
               else
                 (case type_and_fx2 a of
                    (type', fx2) \<Rightarrow>
                      Inr (a, ihex_path, Handle_vid_pid (ucast vid) (ucast pid), type', fx2,
                           tr @ [Libusb_init, Libusb_set_debug (verbose a),
                                 Libusb_open_device_with_vid_pid (ucast vid) (ucast pid)] @ tr3
                             @ (if verbose a \<noteq> 0
                                then logerror P ''microcontroller type: %s'' else []))))))))"

text \<open>\<^verbatim>\<open>main\<close>, lines 373-527.\<close>

definition main2 :: "platform \<Rightarrow> 'w env \<Rightarrow> string \<Rightarrow> opt list \<Rightarrow> 'w \<Rightarrow> int \<times> event list \<times> 'w" where
  "main2 P E argv0 opts w =
     (case startup2 P E argv0 opts of
        Inl (ret, tr) \<Rightarrow> (ret, tr, w)
      | Inr (a, ihex_path, device, type', fx2, tr) \<Rightarrow>
          (case download2 P E a ihex_path device type' fx2 w of
             (status, tr4, w') \<Rightarrow> (status, tr @ tr4 @ out, w')))"

subsection \<open>Reading a trace\<close>

text \<open>The download calls of a trace, the status a download call returned, and the traces
  that hold neither a download call nor output to \<^verbatim>\<open>stdout\<close>.\<close>

fun is_pass :: "event \<Rightarrow> bool" where
  "is_pass (Ezusb_load_ram device path fx_type stage status) = True"
| "is_pass (Ezusb_load_eeprom device path fx_type cfg status) = True"
| "is_pass e = False"

fun pass_status :: "event \<Rightarrow> int" where
  "pass_status (Ezusb_load_ram device path fx_type stage status) = status"
| "pass_status (Ezusb_load_eeprom device path fx_type cfg status) = status"
| "pass_status e = 0"

fun is_stdout :: "event \<Rightarrow> bool" where
  "is_stdout (Stdout s) = True"
| "is_stdout e = False"

definition passes :: "event list \<Rightarrow> event list" where
  "passes tr = filter is_pass tr"

definition quiet :: "event list \<Rightarrow> bool" where
  "quiet tr \<longleftrightarrow> (\<forall>e \<in> set tr. \<not> is_pass e \<and> \<not> is_stdout e)"

text \<open>The events that write a diagnostic: to \<^verbatim>\<open>stderr\<close> or to syslog.\<close>

fun is_diagnostic :: "event \<Rightarrow> bool" where
  "is_diagnostic (Stderr s) = True"
| "is_diagnostic (Syslog s) = True"
| "is_diagnostic e = False"

text \<open>A trace that writes at least one line to \<^verbatim>\<open>stderr\<close>.\<close>

definition has_stderr :: "event list \<Rightarrow> bool" where
  "has_stderr tr \<longleftrightarrow> (\<exists>m. Stderr m \<in> set tr)"

subsection \<open>Matches of the known-device table\<close>

text \<open>
  The condition under which one of the three branches of lines 203-217 breaks for a
  descriptor and a table entry (\<open>consistent\<close>), the values of \<^verbatim>\<open>fx_type\<close>, \<^verbatim>\<open>vid\<close> and \<^verbatim>\<open>pid\<close> it
  leaves (\<open>derived\<close>), and all the values so derivable, over the devices whose descriptor
  could be read, in the order of the device list and then of the table (\<open>matches\<close>).
\<close>

definition consistent ::
  "bool \<Rightarrow> bool \<Rightarrow> int \<Rightarrow> unsigned \<Rightarrow> unsigned \<Rightarrow> usb_device \<Rightarrow> fx_known_device \<Rightarrow> bool" where
  "consistent tn dn fx_type vid pid desc k \<longleftrightarrow>
     idVendor desc = kd_vid k \<and> idProduct desc = kd_pid k \<and>
     (if tn then dn \<or> (vid = ucast (idVendor desc) \<and> pid = ucast (idProduct desc))
      else dn \<and> fx_type = kd_type k)"

definition derived ::
  "bool \<Rightarrow> bool \<Rightarrow> int \<Rightarrow> unsigned \<Rightarrow> unsigned \<Rightarrow> usb_device \<Rightarrow> fx_known_device
    \<Rightarrow> int \<times> unsigned \<times> unsigned" where
  "derived tn dn fx_type vid pid desc k =
     (if tn then kd_type k else fx_type,
      if dn then ucast (idVendor desc) else vid,
      if dn then ucast (idProduct desc) else pid)"

definition matches ::
  "fx_known_device list \<Rightarrow> bool \<Rightarrow> bool \<Rightarrow> int \<Rightarrow> unsigned \<Rightarrow> unsigned \<Rightarrow> usb_device list
    \<Rightarrow> (int \<times> unsigned \<times> unsigned) list" where
  "matches known tn dn fx_type vid pid devs =
     concat (map (\<lambda>dev. if desc_status dev \<ge> 0
                         then map (derived tn dn fx_type vid pid dev)
                                (filter (consistent tn dn fx_type vid pid dev) known)
                         else []) devs)"

section \<open>The firmware image and the download engine, from the spec\<close>

text \<open>
  \<^verbatim>\<open>fxload.c\<close> only calls \<^verbatim>\<open>ezusb_load_ram\<close> and \<^verbatim>\<open>ezusb_load_eeprom\<close>.  The code that reads
  the Intel HEX file and drives the device (ezusb.c) is not among the sources, so this
  section is written from the spec (sections 3, 4.1, 4.2, 4.4, 6 and 7), with the spec's
  names.
\<close>

subsection \<open>Errors and records\<close>

type_synonym byte = "8 word"

text \<open>Modelled from the spec: the four conditions of a \<^verbatim>\<open>MalformedRecord\<close> (section 4.1)
  and the error taxonomy of section 7; the cause of a \<^verbatim>\<open>TransportError\<close> is opaque.\<close>

datatype malformed = MissingStartMarker | OddHexDigitCount | ChecksumMismatch | TruncatedLine

datatype error =
    MalformedRecord malformed | TruncatedImage | AmbiguousDevice | DeviceNotFound
  | UnsupportedOperation | TransportError nat

text \<open>Modelled from the spec: \<^verbatim>\<open>HexRecord\<close> (section 3).  An extended-address record keeps
  the shift that its tag stands for: 4 for \<^verbatim>\<open>02\<close> (segment), 16 for \<^verbatim>\<open>04\<close> (linear).\<close>

datatype recordType = Data | EndOfFile | ExtendedAddress nat | Other

record HexRecord =
  recordType :: recordType
  address :: "16 word"
  payload :: "byte list"
  checksumValid :: bool

text \<open>Modelled from the spec: \<^verbatim>\<open>Segment\<close> (section 3).\<close>

record Segment =
  baseAddress :: "32 word"
  bytes :: "byte list"

subsection \<open>HexRecordParser\<close>

text \<open>Modelled from the spec: "fields are fixed-width hexadecimal" (section 4.1); the
  parser is part of ezusb.c, which is not among the sources.  The value of a hexadecimal
  digit, in either case; \<open>None\<close> for any other character.\<close>

definition hex_digit :: "char \<Rightarrow> nat option" where
  "hex_digit c =
     (let n = of_char c :: nat in
      if 48 \<le> n \<and> n \<le> 57 then Some (n - 48)
      else if 65 \<le> n \<and> n \<le> 70 then Some (n - 55)
      else if 97 \<le> n \<and> n \<le> 102 then Some (n - 87)
      else None)"

text \<open>Modelled from the spec: the fields of a record are bytes of two hexadecimal digits
  each (section 4.1).  The bytes that a text of digit pairs spells; \<open>None\<close> when a
  character is no hexadecimal digit or one digit is left over.\<close>

fun hex_bytes :: "string \<Rightarrow> byte list option" where
  "hex_bytes [] = Some []"
| "hex_bytes [c] = None"
| "hex_bytes (c # d # cs) =
     (case (hex_digit c, hex_digit d, hex_bytes cs) of
        (Some h, Some l, Some bs) \<Rightarrow> Some (word_of_nat (16 * h + l) # bs)
      | _ \<Rightarrow> None)"

text \<open>Modelled from the spec: "Checksum is the two's-complement of the sum of all preceding
  bytes in the record, taken modulo 256" (section 4.1).  On 8-bit words the sum is taken
  modulo 256 and \<open>-\<close> is the two's complement.\<close>

definition checksum :: "byte list \<Rightarrow> byte" where
  "checksum bs = - sum_list bs"

text \<open>Modelled from the spec: the record types of section 4.1, by tag.\<close>

definition type_of_tag :: "byte \<Rightarrow> recordType" where
  "type_of_tag t =
     (if t = 0 then Data else if t = 1 then EndOfFile
      else if t = 2 then ExtendedAddress 4 else if t = 4 then ExtendedAddress 16
      else Other)"

text \<open>
  Modelled from the spec: the contract of \<^verbatim>\<open>HexRecordParser\<close> (section 4.1).  The start
  marker is \<^verbatim>\<open>:\<close>; the fields are byte count, 16-bit address (high byte first), type tag,
  payload and checksum.  The spec names four conditions and no more: a character that
  is no hexadecimal digit, and a line whose number of bytes is not the five fixed ones
  plus the byte count, are reported as \<open>TruncatedLine\<close>.
\<close>

definition parse_record :: "string \<Rightarrow> error + HexRecord" where
  "parse_record line =
     (case line of
        [] \<Rightarrow> Inl (MalformedRecord MissingStartMarker)
      | c # digits \<Rightarrow>
          if c \<noteq> CHR '':'' then Inl (MalformedRecord MissingStartMarker)
          else if odd (length digits) then Inl (MalformedRecord OddHexDigitCount)
          else
            (case hex_bytes digits of
               Some (count # hi # lo # tag # rest) \<Rightarrow>
                 if length rest \<noteq> unat count + 1 then Inl (MalformedRecord TruncatedLine)
                 else if last rest \<noteq> checksum (count # hi # lo # tag # butlast rest)
                 then Inl (MalformedRecord ChecksumMismatch)
                 else Inr \<lparr>recordType = type_of_tag tag, address = word_cat hi lo,
                           payload = butlast rest, checksumValid = True\<rparr>
             | _ \<Rightarrow> Inl (MalformedRecord TruncatedLine)))"

subsection \<open>FirmwareImageLoader\<close>

text \<open>Modelled from the spec: the "stored value" of an extended-address record (section
  4.1), the value of its payload read high byte first.\<close>

definition be_value :: "byte list \<Rightarrow> 32 word" where
  "be_value bs = foldl (\<lambda>v b. push_bit 8 v + ucast b) 0 bs"

text \<open>
  Modelled from the spec: the contract of \<^verbatim>\<open>FirmwareImageLoader\<close> (section 4.2), over the
  running \<^verbatim>\<open>addressOffset\<close>, the segments closed so far and the open segment.  The spec
  names no error for overlapping segments, so none is raised.
\<close>

fun load_lines ::
  "32 word \<Rightarrow> Segment list \<Rightarrow> Segment option \<Rightarrow> string list \<Rightarrow> error + Segment list" where
  "load_lines addressOffset closed current [] = Inl TruncatedImage"
| "load_lines addressOffset closed current (line # lines) =
     (case parse_record line of
        Inl e \<Rightarrow> Inl e
      | Inr r \<Rightarrow>
          (case recordType r of
             EndOfFile \<Rightarrow> Inr (closed @ (case current of None \<Rightarrow> [] | Some s \<Rightarrow> [s]))
           | ExtendedAddress shift \<Rightarrow>
               load_lines (push_bit shift (be_value (payload r))) closed current lines
           | Other \<Rightarrow> load_lines addressOffset closed current lines
           | Data \<Rightarrow>
               (let a = addressOffset + ucast (address r) in
                case current of
                  None \<Rightarrow>
                    load_lines addressOffset closed
                      (Some \<lparr>baseAddress = a, bytes = payload r\<rparr>) lines
                | Some s \<Rightarrow>
                    if a = baseAddress s + word_of_nat (length (bytes s))
                    then load_lines addressOffset closed
                           (Some (s\<lparr>bytes := bytes s @ payload r\<rparr>)) lines
                    else load_lines addressOffset (closed @ [s])
                           (Some \<lparr>baseAddress = a, bytes = payload r\<rparr>) lines)))"

text \<open>Modelled from the spec: \<^verbatim>\<open>FirmwareImageLoader\<close> on a full stream of lines (section 4.2):
  the offset starts at 0 and no segment is open.\<close>

definition FirmwareImageLoader :: "string list \<Rightarrow> error + Segment list" where
  "FirmwareImageLoader lines = load_lines 0 [] None lines"

subsection \<open>DeviceProfile, DownloadPlan and the transport\<close>

text \<open>Modelled from the spec: \<^verbatim>\<open>DeviceProfile\<close> and \<^verbatim>\<open>DownloadPlan\<close> (section 3).\<close>

record DeviceProfile =
  chunkSize :: nat
  resetRegisterAddress :: "32 word"
  resetAssertValue :: byte
  resetReleaseValue :: byte
  supportsEeprom :: bool
  eepromConfigByteSupported :: bool

datatype destination = Ram | Eeprom

record DownloadPlan =
  image :: "Segment list"
  destination :: destination
  configByte :: "byte option"

text \<open>
  Modelled from the spec: \<^verbatim>\<open>sendControlWrite(handle, requestCode, address, data)\<close> of
  section 6, "used for reset assert/release, RAM chunk writes, and EEPROM program
  commands".  The spec gives no request codes, so a write is labelled with what it is
  used for.  The transport keeps every write it was asked for, in order, and fails a write
  or not as its \<open>refuses\<close> says, from the writes before and the write itself; the cause it
  gives is the opaque cause of the \<open>TransportError\<close>.
\<close>

datatype request = ResetAssert | ResetRelease | RamChunk | EepromChunk

record control_write =
  requestCode :: request
  target :: "32 word"
  data :: "byte list"

record transport =
  sent :: "control_write list"
  refuses :: "control_write list \<Rightarrow> control_write \<Rightarrow> nat option"

text \<open>Modelled from the spec: one call of \<^verbatim>\<open>sendControlWrite\<close> (section 6); \<open>None\<close> is
  success.  The write is recorded whether it succeeds or fails.\<close>

definition sendControlWrite :: "control_write \<Rightarrow> transport \<Rightarrow> nat option \<times> transport" where
  "sendControlWrite c t = (refuses t (sent t) c, t\<lparr>sent := sent t @ [c]\<rparr>)"

subsection \<open>DownloadEngine\<close>

text \<open>
  Modelled from the spec: step 2 of section 4.4 for one Segment, "split its byte sequence
  into chunks no larger than \<^verbatim>\<open>chunkSize\<close> (or send whole if \<^verbatim>\<open>chunkSize\<close> is 0) ... one
  control-transfer write per chunk at the chunk's absolute address".  The result is the
  address and the bytes of each chunk, in the order of the writes; an empty byte sequence
  gives no write.  Addresses are 32-bit and wrap around.
\<close>

function chunks :: "nat \<Rightarrow> 32 word \<Rightarrow> byte list \<Rightarrow> (32 word \<times> byte list) list" where
  "chunks n a bs =
     (if bs = [] then []
      else if n = 0 then [(a, bs)]
      else (a, take n bs) # chunks n (a + word_of_nat n) (drop n bs))"
  by pat_completeness auto
termination
  by (relation "measure (\<lambda>(n, a, bs). length bs)") auto

declare chunks.simps [simp del]

text \<open>Modelled from the spec: the chunk writes of a pass are RAM writes or EEPROM program
  commands, by the destination kind of its plan (sections 3 and 6).\<close>

definition chunk_request :: "destination \<Rightarrow> request" where
  "chunk_request d = (case d of Ram \<Rightarrow> RamChunk | Eeprom \<Rightarrow> EepromChunk)"

text \<open>Modelled from the spec: "issue one control-transfer write per chunk at the chunk's
  absolute address" (section 4.4, step 2).\<close>

definition segment_writes :: "DeviceProfile \<Rightarrow> destination \<Rightarrow> Segment \<Rightarrow> control_write list" where
  "segment_writes profile d s =
     map (\<lambda>(a, c). \<lparr>requestCode = chunk_request d, target = a, data = c\<rparr>)
       (chunks (chunkSize profile) (baseAddress s) (bytes s))"

text \<open>Modelled from the spec: the writes of a whole image, "ordering across Segments follows
  image order" (section 4.4, step 2).\<close>

definition image_writes :: "DeviceProfile \<Rightarrow> DownloadPlan \<Rightarrow> control_write list" where
  "image_writes profile plan =
     concat (map (segment_writes profile (destination plan)) (image plan))"

text \<open>Modelled from the spec: "A transfer failure aborts the remaining chunks of the pass":
  the writes are sent in order up to the first one that fails.\<close>

fun send_all :: "control_write list \<Rightarrow> transport \<Rightarrow> nat option \<times> transport" where
  "send_all [] t = (None, t)"
| "send_all (c # cs) t =
     (case sendControlWrite c t of
        (Some cause, t') \<Rightarrow> (Some cause, t')
      | (None, t') \<Rightarrow> send_all cs t')"

text \<open>Modelled from the spec: the reset-assert and the reset-release write, "using
  \<^verbatim>\<open>resetRegisterAddress\<close>/\<^verbatim>\<open>resetAssertValue\<close> from the DeviceProfile" and
  \<^verbatim>\<open>resetReleaseValue\<close> (section 4.4, steps 1 and 3).\<close>

definition reset_assert :: "DeviceProfile \<Rightarrow> control_write" where
  "reset_assert profile =
     \<lparr>requestCode = ResetAssert, target = resetRegisterAddress profile,
      data = [resetAssertValue profile]\<rparr>"

definition reset_release :: "DeviceProfile \<Rightarrow> control_write" where
  "reset_release profile =
     \<lparr>requestCode = ResetRelease, target = resetRegisterAddress profile,
      data = [resetReleaseValue profile]\<rparr>"

text \<open>Modelled from the spec: the states of section 4.4.  A pass reports the states it went
  through, the error it surfaces, if any, and the failure of the reset release when that is
  only reported.\<close>

datatype state = Idle | ResetAsserted | Transferring | ResetReleased | Done | Failed

record pass =
  visited :: "state list"
  surfaced :: "error option"
  release_failure :: "error option"


text \<open>
  Modelled from the spec: the transitions and policy of section 4.4 and the propagation
  policy of section 7.
  \<^item> "Requesting \<^verbatim>\<open>Eeprom\<close> without \<^verbatim>\<open>supportsEeprom\<close> ... is a static
    \<^verbatim>\<open>UnsupportedOperation\<close> failure raised before any transfer begins": the pass stays in
    \<open>Idle\<close>.
  \<^item> Step 1, the reset-assert write, "is skipped for EEPROM-only destination passes"; a
    RAM pass whose reset-assert write fails is \<open>Failed\<close> before \<open>Transferring\<close> has
    started, so no release follows.
  \<^item> Step 2 sends the writes of the image; step 3, the reset-release write, "always runs
    once Transferring has started, even after a mid-pass failure", and its failure "is
    reported but does not mask the original transfer failure".  When the transfers
    succeeded and the release fails, the release failure is the error of the pass.
\<close>

definition run_pass :: "DeviceProfile \<Rightarrow> DownloadPlan \<Rightarrow> transport \<Rightarrow> pass \<times> transport" where
  "run_pass profile plan t =
     (if destination plan = Eeprom \<and> \<not> supportsEeprom profile
      then (\<lparr>visited = [Idle], surfaced = Some UnsupportedOperation, release_failure = None\<rparr>,
            t)
      else
        (case (if destination plan = Eeprom then (None, t)
               else sendControlWrite (reset_assert profile) t) of
           (Some cause, t1) \<Rightarrow>
             (\<lparr>visited = [Idle, Failed], surfaced = Some (TransportError cause),
               release_failure = None\<rparr>, t1)
         | (None, t1) \<Rightarrow>
             (case send_all (image_writes profile plan) t1 of
                (transferred, t2) \<Rightarrow>
                  (case sendControlWrite (reset_release profile) t2 of
                     (released, t3) \<Rightarrow>
                       (case transferred of
                          Some cause \<Rightarrow>
                            (\<lparr>visited = [Idle, ResetAsserted, Transferring, Failed],
                              surfaced = Some (TransportError cause),
                              release_failure = map_option TransportError released\<rparr>, t3)
                        | None \<Rightarrow>
                            (case released of
                               Some cause \<Rightarrow>
                                 (\<lparr>visited = [Idle, ResetAsserted, Transferring, Failed],
                                   surfaced = Some (TransportError cause),
                                   release_failure = None\<rparr>, t3)
                             | None \<Rightarrow>
                                 (\<lparr>visited = [Idle, ResetAsserted, Transferring,
                                              ResetReleased, Done],
                                   surfaced = None, release_failure = None\<rparr>, t3)))))))"

text \<open>The writes a run of the engine added to the transport, and those of one kind.\<close>

definition issued :: "transport \<Rightarrow> transport \<Rightarrow> control_write list" where
  "issued t t' = drop (length (sent t)) (sent t')"


subsection \<open>A concrete environment\<close>

text \<open>A table of two known devices of type 2 (\<^verbatim>\<open>"fx2"\<close> in the list of names below), two
  attached devices that match them, and an environment in which every libusb call
  succeeds; the download functions are left open.\<close>

definition test_known :: "fx_known_device list" where
  "test_known =
     [\<lparr>kd_vid = 0x04b4, kd_pid = 0x8613, kd_type = 2, designation = ''EZ-USB FX2''\<rparr>,
      \<lparr>kd_vid = 0x04b4, kd_pid = 0x6473, kd_type = 2, designation = ''EZ-USB FX2 (2)''\<rparr>]"

definition test_devices :: "usb_device list" where
  "test_devices =
     [\<lparr>desc_status = 0, idVendor = 0x04b4, idProduct = 0x8613, open_status = 0\<rparr>,
      \<lparr>desc_status = 0, idVendor = 0x04b4, idProduct = 0x6473, open_status = 0\<rparr>]"

definition test_env ::
  "(handle \<Rightarrow> string \<Rightarrow> int \<Rightarrow> int \<Rightarrow> 'w \<Rightarrow> int \<times> 'w)
    \<Rightarrow> (handle \<Rightarrow> string \<Rightarrow> int \<Rightarrow> 'w \<Rightarrow> int \<times> 'w) \<Rightarrow> 'w env" where
  "test_env ram eeprom =
     \<lparr>getenv_DEVICE = None,
      FXLOAD_VERSION = ''(development)'',
      strtoul = (\<lambda>s. if s = ''300'' then 300 else if s = ''4294967296'' then 4294967296 else 0),
      sscanf_vid_pid = (\<lambda>s. if s = ''04b4:8613'' then Some (0x04b4, 0x8613) else None),
      verbose_init = 0,
      FX_TYPE_NAMES = [''an21'', ''fx'', ''fx2'', ''fx2lp'', ''fx3''],
      FX_KNOWN_DEVICES = test_known,
      FX_TYPE_UNDEFINED = - 1,
      libusb_init = 0,
      libusb_get_device_list = Some test_devices,
      libusb_open_device_with_vid_pid = (\<lambda>v p. v = 0x04b4 \<and> p = 0x8613),
      libusb_claim_interface = (\<lambda>n. 0),
      ezusb_load_ram = ram,
      ezusb_load_eeprom = (\<lambda>device path fx_type. eeprom device path),
      ezusb_load_eeprom_by_name = (\<lambda>device path name. eeprom device path)\<rparr>"

text \<open>A build for Linux.\<close>

definition test_platform :: platform where
  "test_platform = \<lparr>win32 = False, linux = True\<rparr>"

text \<open>Download functions whose device state counts the calls: one that fails the loader
  with status \<open>- 2\<close>, and two that always succeed.\<close>

definition failing_loader :: "handle \<Rightarrow> string \<Rightarrow> int \<Rightarrow> int \<Rightarrow> nat \<Rightarrow> int \<times> nat" where
  "failing_loader device path fx_type stage w =
     (if path = ''loader.hex'' then (- 2, Suc w) else (0, Suc w))"

definition counting_ram :: "handle \<Rightarrow> string \<Rightarrow> int \<Rightarrow> int \<Rightarrow> nat \<Rightarrow> int \<times> nat" where
  "counting_ram device path fx_type stage w = (0, Suc w)"

definition counting_eeprom :: "handle \<Rightarrow> string \<Rightarrow> int \<Rightarrow> nat \<Rightarrow> int \<times> nat" where
  "counting_eeprom device path cfg w = (0, Suc w)"

text \<open>A command line with a type, a device, a loader and a firmware file.\<close>

definition test_opts :: "opt list" where
  "test_opts = [Opt_t ''fx2'', Opt_D ''04b4:8613'', Opt_s ''loader.hex'', Opt_I ''fw.hex'']"

text \<open>For the engine: a profile with 64-byte chunks and without EEPROM support, a Segment
  of 130 bytes, and a transport that has sent nothing yet and accepts every write.\<close>

definition test_profile :: DeviceProfile where
  "test_profile =
     \<lparr>chunkSize = 64, resetRegisterAddress = 0xE600, resetAssertValue = 1,
      resetReleaseValue = 0, supportsEeprom = False, eepromConfigByteSupported = False\<rparr>"

definition test_segment :: Segment where
  "test_segment = \<lparr>baseAddress = 0x1000, bytes = replicate 130 0xAB\<rparr>"

definition test_transport :: transport where
  "test_transport = \<lparr>sent = [], refuses = (\<lambda>s c. None)\<rparr>"






section \<open>Evaluation\<close>

text \<open>The defining equations that evaluate a run on concrete arguments.\<close>

lemmas eval_defs =
  main_def startup_def main2_def startup2_def initial_args_def test_env_def test_platform_def
  check_args_def check_args2_def scan_device_id_def target_type_def open_device_def
  claim_interface_def download_def download2_def out_def logerror_def dosyslog_def usage_def
  usage2_def type_and_fx2_def failing_loader_def counting_eeprom_def int_of_ulong_def
  passes_def test_opts_def counting_ram_def
  test_known_def test_devices_def matches_def consistent_def derived_def


section \<open>Properties of the two entry points\<close>

subsection \<open>The shape of a run\<close>

lemma quiet_Nil [simp]: "quiet []" by (simp add: quiet_def)
lemma quiet_append [simp]: "quiet (xs @ ys) \<longleftrightarrow> quiet xs \<and> quiet ys" by (auto simp: quiet_def)
lemma quiet_Cons [simp]: "quiet (e # tr) \<longleftrightarrow> \<not> is_pass e \<and> \<not> is_stdout e \<and> quiet tr" by (auto simp: quiet_def)
lemma quiet_logerror [simp]: "quiet (logerror P m)" by (simp add: logerror_def)
lemma quiet_usage [simp]: "quiet (usage argv0)" by (simp add: usage_def)
lemma quiet_usage2 [simp]: "quiet (usage2 argv0)" by (simp add: usage2_def)

lemma quiet_find_known_device:
  "find_known_device P known v tn dn fx_type vid pid i devs = (tr, r) \<Longrightarrow> quiet tr"
  by (induction devs arbitrary: i tr r)
     (auto simp: Let_def split: option.splits prod.splits if_splits)

lemma quiet_open_device: "open_device P E argv0 a fx_type vid pid = (tr, r) \<Longrightarrow> quiet tr"
  by (auto simp: open_device_def split: option.splits prod.splits if_splits
      dest: quiet_find_known_device)

lemma quiet_claim_interface: "claim_interface P E = (tr, r) \<Longrightarrow> quiet tr"
  by (auto simp: claim_interface_def split: if_splits)

lemma getopt_loop_Return_0:
  "getopt_loop P E opts a = (Return_0, tr) \<Longrightarrow> tr = [Stdout (FXLOAD_VERSION E)]"
  by (induction P E opts a rule: getopt_loop.induct) (auto simp: Let_def split: if_splits)

lemma getopt_loop_Goto_usage: "getopt_loop P E opts a = (Goto_usage, tr) \<Longrightarrow> quiet tr"
  by (induction P E opts a rule: getopt_loop.induct) (auto simp: Let_def split: if_splits)

lemma getopt_loop_Scanned: "getopt_loop P E opts a = (Scanned a', tr) \<Longrightarrow> tr = []"
  by (induction P E opts a rule: getopt_loop.induct) (auto simp: Let_def split: if_splits)

lemma quiet_check_args: "check_args P a = Some m \<Longrightarrow> quiet m"
  by (auto simp: check_args_def split: if_splits)

lemma startup_Inl:
  assumes "startup P E argv0 opts = Inl (ret, tr)"
  shows "(ret = 0 \<and> tr = [Stdout (FXLOAD_VERSION E)]
          \<and> getopt_loop P E opts (initial_args E) = (Return_0, tr))
       \<or> (ret = - 1 \<and> quiet tr)"
proof (cases "getopt_loop P E opts (initial_args E)")
  case (Pair sc tr0)
  show ?thesis
  proof (cases sc)
    case Return_0
    with Pair assms getopt_loop_Return_0 [of P E opts "initial_args E" tr0] show ?thesis
      by (simp add: startup_def)
  next
    case Goto_usage
    with Pair assms getopt_loop_Goto_usage [of P E opts "initial_args E" tr0] show ?thesis
      by (auto simp: startup_def)
  next
    case (Scanned a)
    with Pair have tr0: "tr0 = []" using getopt_loop_Scanned by blast
    show ?thesis
      using assms Pair Scanned tr0
      by (auto simp: startup_def split: option.splits prod.splits if_splits
          dest!: quiet_open_device quiet_claim_interface quiet_check_args)
  qed
qed

lemma startup_Inr:
  assumes "startup P E argv0 opts = Inr (a, firmware, device, fx_type, tr)"
  shows "getopt_loop P E opts (initial_args E) = (Scanned a, [])
     \<and> check_args P a = None \<and> firmware_path a = Some firmware \<and> quiet tr"
proof (cases "getopt_loop P E opts (initial_args E)")
  case (Pair sc tr0)
  show ?thesis
  proof (cases sc)
    case Return_0
    with Pair assms show ?thesis by (simp add: startup_def)
  next
    case Goto_usage
    with Pair assms show ?thesis by (simp add: startup_def)
  next
    case (Scanned a')
    with Pair have tr0: "tr0 = []" using getopt_loop_Scanned by blast
    show ?thesis
      using assms Pair Scanned tr0
      by (auto simp: startup_def split: option.splits prod.splits if_splits
          dest!: quiet_open_device quiet_claim_interface)
  qed
qed


lemma passes_quiet: "quiet tr \<Longrightarrow> passes tr = []"
  by (simp add: passes_def quiet_def)

lemma passes_append: "passes (xs @ ys) = passes xs @ passes ys"
  by (simp add: passes_def)

lemma passes_out: "passes out = []"
  by (simp add: passes_def out_def)

lemma passes_logerror: "passes (logerror P m) = []"
  by (simp add: passes_quiet)

lemma getopt_loop2_Return_0:
  "getopt_loop2 P E opts a = (Return_0, tr) \<Longrightarrow> tr = [Stdout (FXLOAD_VERSION E)]"
  by (induction P E opts a rule: getopt_loop2.induct) (auto simp: Let_def split: if_splits)

lemma getopt_loop2_Goto_usage: "getopt_loop2 P E opts a = (Goto_usage, tr) \<Longrightarrow> quiet tr"
  by (induction P E opts a rule: getopt_loop2.induct) (auto simp: Let_def split: if_splits)

lemma getopt_loop2_Scanned: "getopt_loop2 P E opts a = (Scanned a', tr) \<Longrightarrow> tr = []"
  by (induction P E opts a rule: getopt_loop2.induct) (auto simp: Let_def split: if_splits)

lemma quiet_check_args2: "check_args2 P a = Some m \<Longrightarrow> quiet m"
  by (auto simp: check_args2_def split: if_splits)

lemma startup2_Inl:
  assumes "startup2 P E argv0 opts = Inl (ret, tr)"
  shows "(ret = 0 \<and> tr = [Stdout (FXLOAD_VERSION E)]
          \<and> getopt_loop2 P E opts (initial_args E) = (Return_0, tr))
       \<or> (ret = - 1 \<and> quiet tr)"
proof (cases "getopt_loop2 P E opts (initial_args E)")
  case (Pair sc tr0)
  show ?thesis
  proof (cases sc)
    case Return_0
    with Pair assms getopt_loop2_Return_0 [of P E opts "initial_args E" tr0] show ?thesis
      by (simp add: startup2_def)
  next
    case Goto_usage
    with Pair assms getopt_loop2_Goto_usage [of P E opts "initial_args E" tr0] show ?thesis
      by (auto simp: startup2_def)
  next
    case (Scanned a)
    with Pair have tr0: "tr0 = []" using getopt_loop2_Scanned by blast
    show ?thesis
      using assms Pair Scanned tr0
      by (auto simp: startup2_def split: option.splits prod.splits if_splits
          dest!: quiet_claim_interface quiet_check_args2)
  qed
qed

lemma startup2_Inr:
  assumes "startup2 P E argv0 opts = Inr (a, ihex_path, device, type', fx2, tr)"
  shows "getopt_loop2 P E opts (initial_args E) = (Scanned a, [])
     \<and> check_args2 P a = None \<and> firmware_path a = Some ihex_path
     \<and> type_and_fx2 a = (type', fx2) \<and> quiet tr"
proof (cases "getopt_loop2 P E opts (initial_args E)")
  case (Pair sc tr0)
  show ?thesis
  proof (cases sc)
    case Return_0
    with Pair assms show ?thesis by (simp add: startup2_def)
  next
    case Goto_usage
    with Pair assms show ?thesis by (simp add: startup2_def)
  next
    case (Scanned a')
    with Pair have tr0: "tr0 = []" using getopt_loop2_Scanned by blast
    show ?thesis
      using assms Pair Scanned tr0
      by (auto simp: startup2_def split: option.splits prod.splits if_splits
          dest!: quiet_claim_interface)
  qed
qed


lemma passes_Cons: "passes (e # tr) = (if is_pass e then e # passes tr else passes tr)"
  by (simp add: passes_def)

lemma passes_Nil: "passes [] = []"
  by (simp add: passes_def)



subsection \<open>Device identification\<close>











subsection \<open>Two-stage sequencing\<close>



subsection \<open>The EEPROM pass comes after the loader pass\<close>







text \<open>
  The engine of the spec does refuse an EEPROM pass against a profile without
  \<^verbatim>\<open>supportsEeprom\<close> before any write: the transport is returned as it was.
\<close>

lemma run_pass_unsupported:
  "destination plan = Eeprom \<Longrightarrow> \<not> supportsEeprom profile \<Longrightarrow>
     run_pass profile plan t
       = (\<lparr>visited = [Idle], surfaced = Some UnsupportedOperation, release_failure = None\<rparr>, t)"
  by (simp add: run_pass_def)



subsection \<open>The EEPROM config byte\<close>

lemma diagnostic_logerror: "list_all is_diagnostic (logerror P m)"
  by (simp add: logerror_def)

lemma diagnostic_usage: "list_all is_diagnostic (usage argv0)"
  by (simp add: usage_def)

lemma diagnostic_usage2: "list_all is_diagnostic (usage2 argv0)"
  by (simp add: usage2_def)

lemma getopt_loop_illegal_config:
  assumes "Opt_V \<notin> set pre"
    and "int_of_ulong (strtoul E optarg) < 0 \<or> 255 < int_of_ulong (strtoul E optarg)"
  shows "\<exists>tr. getopt_loop P E (pre @ Opt_c optarg # post) a = (Goto_usage, tr)
              \<and> list_all is_diagnostic tr"
  using assms
  by (induction P E pre a rule: getopt_loop.induct)
     (auto simp: Let_def diagnostic_logerror)

lemma getopt_loop2_illegal_config:
  assumes "Opt_V \<notin> set pre"
    and "int_of_ulong (strtoul E optarg) < 0 \<or> 255 < int_of_ulong (strtoul E optarg)"
  shows "\<exists>tr. getopt_loop2 P E (pre @ Opt_c optarg # post) a = (Goto_usage, tr)
              \<and> list_all is_diagnostic tr"
  using assms
  by (induction P E pre a rule: getopt_loop2.induct)
     (auto simp: Let_def diagnostic_logerror)

text \<open>
  Claim C8, as amended.  In both versions of \<^verbatim>\<open>main\<close>, when no \<^verbatim>\<open>-V\<close> stands before a
  \<^verbatim>\<open>-c\<close> option whose argument, as \<^verbatim>\<open>strtoul\<close> reads it and the assignment to the \<^verbatim>\<open>int\<close>
  \<^verbatim>\<open>config\<close> converts it, is below 0 or above 255, the run returns \<open>- 1\<close>; its trace ends
  with the usage text and holds nothing but diagnostics (no libusb call, no download
  call), and the device state is untouched.
\<close>

theorem illegal_config_byte_rejected:
  assumes "Opt_V \<notin> set pre"
    and "int_of_ulong (strtoul E optarg) < 0 \<or> 255 < int_of_ulong (strtoul E optarg)"
  shows "(\<exists>tr. main P E argv0 (pre @ Opt_c optarg # post) w = (- 1, tr @ usage argv0, w)
               \<and> list_all is_diagnostic (tr @ usage argv0))
       \<and> (\<exists>tr. main2 P E argv0 (pre @ Opt_c optarg # post) w = (- 1, tr @ usage2 argv0, w)
               \<and> list_all is_diagnostic (tr @ usage2 argv0))"
proof
  from getopt_loop_illegal_config [OF assms, of P post "initial_args E"]
  obtain tr where "getopt_loop P E (pre @ Opt_c optarg # post) (initial_args E) = (Goto_usage, tr)"
    and "list_all is_diagnostic tr" by blast
  then show "\<exists>tr. main P E argv0 (pre @ Opt_c optarg # post) w = (- 1, tr @ usage argv0, w)
               \<and> list_all is_diagnostic (tr @ usage argv0)"
    by (simp add: main_def startup_def diagnostic_usage)
next
  from getopt_loop2_illegal_config [OF assms, of P post "initial_args E"]
  obtain tr where "getopt_loop2 P E (pre @ Opt_c optarg # post) (initial_args E) = (Goto_usage, tr)"
    and "list_all is_diagnostic tr" by blast
  then show "\<exists>tr. main2 P E argv0 (pre @ Opt_c optarg # post) w = (- 1, tr @ usage2 argv0, w)
               \<and> list_all is_diagnostic (tr @ usage2 argv0)"
    by (simp add: main2_def startup2_def diagnostic_usage2)
qed

theorem illegal_config_byte_rejected_witness:
  "Opt_V \<notin> set [Opt_I ''fw.hex'']
   \<and> 255 < int_of_ulong (strtoul (test_env failing_loader counting_eeprom) ''300'')
   \<and> main test_platform (test_env failing_loader counting_eeprom) ''fxload''
        ([Opt_I ''fw.hex''] @ Opt_c ''300'' # [Opt_s ''loader.hex'']) 0
      = (- 1, [] @ usage ''fxload'', 0)
   \<and> main2 test_platform (test_env failing_loader counting_eeprom) ''fxload''
        ([Opt_I ''fw.hex''] @ Opt_c ''300'' # [Opt_s ''loader.hex'']) 0
      = (- 1, [] @ usage2 ''fxload'', 0)"
  using illegal_config_byte_rejected
    [of "[Opt_I ''fw.hex'']" "test_env failing_loader counting_eeprom" "''300''" test_platform
        "''fxload''" "[Opt_s ''loader.hex'']" 0]
  by (simp add: eval_defs)

text \<open>
  The claim as stated, for every invocation, fails where \<^verbatim>\<open>-V\<close> comes first: the version
  is printed and the run returns 0 (lines 111-113 and 395-397), whatever follows.
\<close>

theorem version_before_config_counterexample:
  "255 < int_of_ulong (strtoul (test_env failing_loader counting_eeprom) ''300'')
   \<and> main test_platform (test_env failing_loader counting_eeprom) ''fxload''
        [Opt_V, Opt_c ''300''] 0
      = (0, [Stdout ''(development)''], 0)
   \<and> main2 test_platform (test_env failing_loader counting_eeprom) ''fxload''
        [Opt_V, Opt_c ''300''] 0
      = (0, [Stdout ''(development)''], 0)"
  by (simp add: eval_defs)

text \<open>The conversion of line 116 (and 400), at a value that only an \<^verbatim>\<open>unsigned long\<close> of
  more than 32 bits holds and at the largest value of one of 32 bits; and the option loop
  on the first.\<close>

lemma narrowed_config: "int_of_ulong 4294967296 = 0" "int_of_ulong 4294967295 = - 1"
  by (simp_all add: int_of_ulong_def)

lemma wide_config_accepted:
  "getopt_loop test_platform (test_env counting_ram counting_eeprom) [Opt_c ''4294967296'']
     (initial_args (test_env counting_ram counting_eeprom))
   = (Scanned ((initial_args (test_env counting_ram counting_eeprom))\<lparr>config := 0\<rparr>), [])"
  by (simp add: eval_defs)

subsection \<open>Exit status and output\<close>

lemma has_stderr_append: "has_stderr (xs @ ys) \<longleftrightarrow> has_stderr xs \<or> has_stderr ys"
  by (auto simp: has_stderr_def)

lemma has_stderr_Cons: "has_stderr (e # tr) \<longleftrightarrow> (\<exists>m. e = Stderr m) \<or> has_stderr tr"
  by (auto simp: has_stderr_def)

lemma has_stderr_usage: "has_stderr (usage argv0)"
  by (simp add: usage_def has_stderr_Cons)

lemma has_stderr_usage2: "has_stderr (usage2 argv0)"
  by (simp add: usage2_def has_stderr_Cons)

lemma has_stderr_logerror: "win32 P \<Longrightarrow> has_stderr (logerror P m)"
  by (simp add: has_stderr_def logerror_def)

lemma has_stderr_open_device:
  "win32 P \<Longrightarrow> open_device P E argv0 a fx_type vid pid = (tr, None) \<Longrightarrow> has_stderr tr"
  by (auto simp: open_device_def has_stderr_append has_stderr_Cons has_stderr_usage
      has_stderr_logerror split: option.splits prod.splits if_splits)

lemma startup_has_stderr:
  assumes "win32 P" and "startup P E argv0 opts = Inl (ret, tr)" and "ret \<noteq> 0"
  shows "has_stderr tr"
  using assms
  by (auto simp: startup_def has_stderr_append has_stderr_Cons has_stderr_usage
      has_stderr_logerror check_args_def
      split: option.splits prod.splits if_splits scan.splits
      dest: has_stderr_open_device)

lemma startup2_has_stderr:
  assumes "win32 P" and "startup2 P E argv0 opts = Inl (ret, tr)" and "ret \<noteq> 0"
  shows "has_stderr tr"
  using assms
  by (auto simp: startup2_def has_stderr_append has_stderr_Cons has_stderr_usage2
      has_stderr_logerror check_args2_def
      split: option.splits prod.splits if_splits scan.splits)


lemma not_stdout_logerror: "e \<in> set (logerror P m) \<Longrightarrow> \<not> is_stdout e"
  by (simp add: logerror_def split: if_splits)

lemma passes_if_logerror: "passes (if c then logerror P m else []) = []"
  by (simp add: passes_logerror passes_Nil)

lemma not_stdout_if_logerror:
  "e \<in> set (if c then logerror P m else []) \<Longrightarrow> \<not> is_stdout e"
  by (simp add: logerror_def split: if_splits)

lemma download_status:
  assumes d: "download P E a firmware device fx_type w = (ret, tr, w')"
  shows "passes tr \<noteq> [] \<and> (ret = 0 \<longleftrightarrow> (\<forall>e \<in> set (passes tr). pass_status e = 0))
         \<and> (\<forall>e \<in> set tr. \<not> is_stdout e)"
proof (cases "loader_path a")
  case None
  obtain s1 w1 where r1: "ezusb_load_ram E device firmware fx_type 0 w = (s1, w1)"
    by (cases "ezusb_load_ram E device firmware fx_type 0 w")
  from d None r1 show ?thesis
    by (auto simp: download_def passes_append passes_if_logerror passes_Cons passes_Nil
        dest: not_stdout_if_logerror not_stdout_logerror)
next
  case (Some loader)
  obtain s1 w1 where r1: "ezusb_load_ram E device loader fx_type 0 w = (s1, w1)"
    by (cases "ezusb_load_ram E device loader fx_type 0 w")
  obtain s2 w2 where r2: "ezusb_load_eeprom E device firmware fx_type (config a) w1 = (s2, w2)"
    by (cases "ezusb_load_eeprom E device firmware fx_type (config a) w1")
  obtain s3 w3 where r3: "ezusb_load_ram E device firmware fx_type 1 w1 = (s3, w3)"
    by (cases "ezusb_load_ram E device firmware fx_type 1 w1")
  consider "s1 \<noteq> 0" | "s1 = 0" "config a \<ge> 0" | "s1 = 0" "\<not> config a \<ge> 0" by blast
  then show ?thesis
  proof cases
    case 1
    with d Some r1 show ?thesis
      by (auto simp: download_def passes_append passes_if_logerror passes_Cons passes_Nil
          dest: not_stdout_if_logerror not_stdout_logerror)
  next
    case 2
    with d Some r1 r2 show ?thesis
      by (auto simp: download_def passes_append passes_if_logerror passes_Cons passes_Nil
          dest: not_stdout_if_logerror not_stdout_logerror)
  next
    case 3
    with d Some r1 r3 show ?thesis
      by (auto simp: download_def passes_append passes_if_logerror passes_Cons passes_Nil
          dest: not_stdout_if_logerror not_stdout_logerror)
  qed
qed

lemma download2_status:
  assumes d: "download2 P E a firmware device type' fx2 w = (ret, tr, w')"
  shows "passes tr \<noteq> [] \<and> (ret = 0 \<longleftrightarrow> (\<forall>e \<in> set (passes tr). pass_status e = 0))
         \<and> (\<forall>e \<in> set tr. \<not> is_stdout e)"
proof (cases "loader_path a")
  case None
  obtain s1 w1 where r1: "ezusb_load_ram E device firmware fx2 0 w = (s1, w1)"
    by (cases "ezusb_load_ram E device firmware fx2 0 w")
  from d None r1 show ?thesis
    by (auto simp: download2_def passes_append passes_if_logerror passes_Cons passes_Nil
        dest: not_stdout_if_logerror not_stdout_logerror)
next
  case (Some loader)
  obtain s1 w1 where r1: "ezusb_load_ram E device loader fx2 0 w = (s1, w1)"
    by (cases "ezusb_load_ram E device loader fx2 0 w")
  obtain s2 w2 where r2: "ezusb_load_eeprom_by_name E device firmware type' (config a) w1 = (s2, w2)"
    by (cases "ezusb_load_eeprom_by_name E device firmware type' (config a) w1")
  obtain s3 w3 where r3: "ezusb_load_ram E device firmware fx2 1 w1 = (s3, w3)"
    by (cases "ezusb_load_ram E device firmware fx2 1 w1")
  consider "s1 \<noteq> 0" | "s1 = 0" "config a \<ge> 0" | "s1 = 0" "\<not> config a \<ge> 0" by blast
  then show ?thesis
  proof cases
    case 1
    with d Some r1 show ?thesis
      by (auto simp: download2_def passes_append passes_if_logerror passes_Cons passes_Nil
          dest: not_stdout_if_logerror not_stdout_logerror)
  next
    case 2
    with d Some r1 r2 show ?thesis
      by (auto simp: download2_def passes_append passes_if_logerror passes_Cons passes_Nil
          dest: not_stdout_if_logerror not_stdout_logerror)
  next
    case 3
    with d Some r1 r3 show ?thesis
      by (auto simp: download2_def passes_append passes_if_logerror passes_Cons passes_Nil
          dest: not_stdout_if_logerror not_stdout_logerror)
  qed
qed


lemma quiet_no_stdout: "quiet tr \<Longrightarrow> Stdout s \<notin> set tr"
  by (auto simp: quiet_def)

lemma quiet_not_version: "quiet tr \<Longrightarrow> tr \<noteq> [Stdout s]"
  by (auto simp: quiet_def)

lemma run_report:
  assumes pre: "quiet pre"
    and st: "passes dtr \<noteq> [] \<and> (ret = 0 \<longleftrightarrow> (\<forall>e \<in> set (passes dtr). pass_status e = 0))
         \<and> (\<forall>e \<in> set dtr. \<not> is_stdout e)"
    and tr: "tr = pre @ dtr @ out"
  shows "(ret = 0 \<longleftrightarrow> tr = [Stdout v]
            \<or> passes tr \<noteq> [] \<and> (\<forall>e \<in> set (passes tr). pass_status e = 0))
       \<and> (ret \<noteq> 0 \<and> passes tr = [] \<longrightarrow> ret = - 1 \<and> w' = w)
       \<and> (\<forall>s. Stdout s \<in> set tr \<longrightarrow> tr = [Stdout v])
       \<and> (win32 P \<and> ret \<noteq> 0 \<and> passes tr = [] \<longrightarrow> (\<exists>m. Stderr m \<in> set tr))"
proof -
  have p: "passes tr = passes dtr"
    using tr pre by (simp add: passes_append passes_quiet passes_out)
  have n: "tr \<noteq> [Stdout v]"
  proof
    assume "tr = [Stdout v]"
    then have "passes tr = []" by (simp add: passes_Cons passes_Nil)
    with p st show False by simp
  qed
  have s: "Stdout s \<notin> set tr" for s
    using tr quiet_no_stdout [OF pre] st by (auto simp: out_def)
  from p n s st show ?thesis by simp
qed

text \<open>
  Claim C9, as amended.  In both versions of \<^verbatim>\<open>main\<close>, the value returned is 0 exactly
  when the run printed the version (\<^verbatim>\<open>-V\<close>, and nothing else happened) or it made at least
  one download call and every download call returned 0.  A run that returns another value
  without a download call returns \<open>- 1\<close> and leaves the device state untouched.  Nothing
  but the version string is ever written to \<^verbatim>\<open>stdout\<close>.  In a build with \<^verbatim>\<open>_WIN32\<close>, a run
  that fails before the download stage writes at least one line to \<^verbatim>\<open>stderr\<close>.
\<close>

theorem exit_status_and_output:
  assumes "main P E argv0 opts w = (ret, tr, w') \<or> main2 P E argv0 opts w = (ret, tr, w')"
  shows "(ret = 0 \<longleftrightarrow> tr = [Stdout (FXLOAD_VERSION E)]
            \<or> passes tr \<noteq> [] \<and> (\<forall>e \<in> set (passes tr). pass_status e = 0))
       \<and> (ret \<noteq> 0 \<and> passes tr = [] \<longrightarrow> ret = - 1 \<and> w' = w)
       \<and> (\<forall>s. Stdout s \<in> set tr \<longrightarrow> tr = [Stdout (FXLOAD_VERSION E)])
       \<and> (win32 P \<and> ret \<noteq> 0 \<and> passes tr = [] \<longrightarrow> (\<exists>m. Stderr m \<in> set tr))"
  using assms
proof
  assume m: "main P E argv0 opts w = (ret, tr, w')"
  show ?thesis
  proof (cases "startup P E argv0 opts")
    case (Inl p)
    obtain r t where p: "p = (r, t)" by (cases p)
    from Inl p m have e: "ret = r" "tr = t" "w' = w" by (simp_all add: main_def)
    from startup_Inl [of P E argv0 opts r t] Inl p
    consider "r = 0" "t = [Stdout (FXLOAD_VERSION E)]" | "r = - 1" "quiet t" by blast
    then show ?thesis
    proof cases
      case 1
      with e show ?thesis by (simp add: passes_Cons passes_Nil)
    next
      case 2
      with e startup_has_stderr [of P E argv0 opts r t] Inl p show ?thesis
        by (auto simp: passes_quiet has_stderr_def dest: quiet_no_stdout quiet_not_version)
    qed
  next
    case (Inr q)
    obtain a firmware device fx_type pre where q: "q = (a, firmware, device, fx_type, pre)"
      by (cases q)
    from startup_Inr [of P E argv0 opts a firmware device fx_type pre] Inr q
    have pre: "quiet pre" by simp
    obtain dtr where d: "download P E a firmware device fx_type w = (ret, dtr, w')"
      and tr: "tr = pre @ dtr @ out"
      using m Inr q by (auto simp: main_def split: prod.splits)
    from run_report [OF pre download_status [OF d] tr] show ?thesis .
  qed
next
  assume m: "main2 P E argv0 opts w = (ret, tr, w')"
  show ?thesis
  proof (cases "startup2 P E argv0 opts")
    case (Inl p)
    obtain r t where p: "p = (r, t)" by (cases p)
    from Inl p m have e: "ret = r" "tr = t" "w' = w" by (simp_all add: main2_def)
    from startup2_Inl [of P E argv0 opts r t] Inl p
    consider "r = 0" "t = [Stdout (FXLOAD_VERSION E)]" | "r = - 1" "quiet t" by blast
    then show ?thesis
    proof cases
      case 1
      with e show ?thesis by (simp add: passes_Cons passes_Nil)
    next
      case 2
      with e startup2_has_stderr [of P E argv0 opts r t] Inl p show ?thesis
        by (auto simp: passes_quiet has_stderr_def dest: quiet_no_stdout quiet_not_version)
    qed
  next
    case (Inr q)
    obtain a firmware device type' fx2 pre
      where q: "q = (a, firmware, device, type', fx2, pre)"
      by (cases q)
    from startup2_Inr [of P E argv0 opts a firmware device type' fx2 pre] Inr q
    have pre: "quiet pre" by simp
    obtain dtr where d: "download2 P E a firmware device type' fx2 w = (ret, dtr, w')"
      and tr: "tr = pre @ dtr @ out"
      using m Inr q by (auto simp: main2_def split: prod.splits)
    from run_report [OF pre download2_status [OF d] tr] show ?thesis .
  qed
qed


theorem exit_status_and_output_witness:
  "main test_platform (test_env counting_ram counting_eeprom) ''fxload''
      [Opt_t ''fx2'', Opt_D ''04b4:8613'', Opt_I ''fw.hex''] 0
    = (0,
       [Libusb_init, Libusb_set_debug 0, Libusb_open_device_with_vid_pid 0x04b4 0x8613,
        Libusb_claim_interface,
        Ezusb_load_ram (Handle_vid_pid 0x04b4 0x8613) ''fw.hex'' 2 0 0,
        Libusb_release_interface, Libusb_close, Libusb_exit], 1)
   \<and> passes
        [Libusb_init, Libusb_set_debug 0, Libusb_open_device_with_vid_pid 0x04b4 0x8613,
         Libusb_claim_interface,
         Ezusb_load_ram (Handle_vid_pid 0x04b4 0x8613) ''fw.hex'' 2 0 0,
         Libusb_release_interface, Libusb_close, Libusb_exit]
       = [Ezusb_load_ram (Handle_vid_pid 0x04b4 0x8613) ''fw.hex'' 2 0 0]
   \<and> pass_status (Ezusb_load_ram (Handle_vid_pid 0x04b4 0x8613) ''fw.hex'' 2 0 0) = 0"
  using exit_status_and_output
    [of test_platform "test_env counting_ram counting_eeprom" "''fxload''"
        "[Opt_t ''fx2'', Opt_D ''04b4:8613'', Opt_I ''fw.hex'']" 0 0
        "[Libusb_init, Libusb_set_debug 0, Libusb_open_device_with_vid_pid 0x04b4 0x8613,
          Libusb_claim_interface,
          Ezusb_load_ram (Handle_vid_pid 0x04b4 0x8613) ''fw.hex'' 2 0 0,
          Libusb_release_interface, Libusb_close, Libusb_exit]" 1]
  by (simp add: eval_defs)

text \<open>
  The claim as stated fails where \<^verbatim>\<open>-V\<close> is given: the run returns 0 although the
  download that \<^verbatim>\<open>-I\<close> asked for was never made.
\<close>

theorem version_exit_counterexample:
  "main test_platform (test_env counting_ram counting_eeprom) ''fxload''
     [Opt_I ''fw.hex'', Opt_V] 0
   = (0, [Stdout ''(development)''], 0)
   \<and> passes [Stdout ''(development)''] = []"
  by (simp add: eval_defs)

text \<open>
  What \<^verbatim>\<open>logerror\<close> does where \<^verbatim>\<open>_WIN32\<close> is not defined: nothing.  A run that fails at
  \<^verbatim>\<open>libusb_init\<close> there returns \<open>- 1\<close> and writes no diagnostic at all.
\<close>

lemma logerror_not_win32: "\<not> win32 P \<Longrightarrow> logerror P format = []"
  by (simp add: logerror_def dosyslog_def)

lemma libusb_init_failure_silent:
  "main test_platform ((test_env counting_ram counting_eeprom)\<lparr>libusb_init := - 1\<rparr>) ''fxload''
     [Opt_t ''fx2'', Opt_D ''04b4:8613'', Opt_I ''fw.hex''] (0::nat)
   = (- 1, [Libusb_init], 0)"
  by (simp add: eval_defs)

subsection \<open>The default microcontroller type of the second version\<close>

lemma getopt_loop2_no_t:
  "\<forall>t. Opt_t t \<notin> set opts \<Longrightarrow> getopt_loop2 P E opts a = (Scanned a', tr)
    \<Longrightarrow> type a' = type a"
  by (induction P E opts a rule: getopt_loop2.induct) (auto simp: Let_def split: if_splits)

lemma getopt_loop2_append_fx:
  "getopt_loop2 P E (opts @ [Opt_t ''fx'']) a =
     (case getopt_loop2 P E opts a of
        (Scanned a', tr) \<Rightarrow> (Scanned (a'\<lparr>type := Some ''fx''\<rparr>), tr)
      | (Return_0, tr) \<Rightarrow> (Return_0, tr)
      | (Goto_usage, tr) \<Rightarrow> (Goto_usage, tr))"
  by (induction P E opts a rule: getopt_loop2.induct) (auto simp: Let_def)

lemma download2_type:
  "download2 P E (a\<lparr>type := t\<rparr>) ihex_path device type' fx2 w
   = download2 P E a ihex_path device type' fx2 w"
  by (simp add: download2_def Let_def split: option.splits prod.splits)

lemma startup2_default_fx:
  assumes "type a = None" "config a < 0"
    and "getopt_loop2 P E opts (initial_args E) = (Scanned a, tr)"
  shows "main2 P E argv0 (opts @ [Opt_t ''fx'']) w = main2 P E argv0 opts w"
  using assms
  by (simp add: main2_def startup2_def getopt_loop2_append_fx check_args2_def
      type_and_fx2_def download2_type
      split: option.splits prod.splits)

lemma startup2_early_exit:
  assumes "getopt_loop2 P E opts (initial_args E) = (sc, tr)" and "\<forall>a. sc \<noteq> Scanned a"
  shows "main2 P E argv0 (opts @ [Opt_t ''fx'']) w = main2 P E argv0 opts w"
  using assms
  by (cases sc) (simp_all add: main2_def startup2_def getopt_loop2_append_fx)

text \<open>
  Claim C10.  In the second version of \<^verbatim>\<open>main\<close>, for a command line without \<^verbatim>\<open>-t\<close>:
  whenever the run reaches the download stage, \<^verbatim>\<open>type\<close> is \<^verbatim>\<open>"fx"\<close> and \<^verbatim>\<open>fx2\<close> is 0 there;
  and the run fails with the diagnostic about the missing type and the usage text if the
  option loop ran to its end with a config byte, and otherwise is the very run that the
  same command line with \<^verbatim>\<open>-t fx\<close> added gives: the missing type alone causes no
  diagnostic and no other result.
\<close>

theorem missing_type_defaults_to_fx:
  assumes "\<forall>t. Opt_t t \<notin> set opts"
  shows "(\<forall>a ihex_path device type' fx2 tr.
            startup2 P E argv0 opts = Inr (a, ihex_path, device, type', fx2, tr)
            \<longrightarrow> type' = ''fx'' \<and> fx2 = 0)
       \<and> main2 P E argv0 opts w
           = (if \<exists>a tr. getopt_loop2 P E opts (initial_args E) = (Scanned a, tr) \<and> config a \<ge> 0
              then (- 1, logerror P ''must specify microcontroller type %s'' @ usage2 argv0, w)
              else main2 P E argv0 (opts @ [Opt_t ''fx'']) w)"
proof (rule conjI)
  show "\<forall>a ihex_path device type' fx2 tr.
            startup2 P E argv0 opts = Inr (a, ihex_path, device, type', fx2, tr)
            \<longrightarrow> type' = ''fx'' \<and> fx2 = 0"
  proof (intro allI impI)
    fix a ihex_path device type' fx2 tr
    assume s: "startup2 P E argv0 opts = Inr (a, ihex_path, device, type', fx2, tr)"
    from startup2_Inr [OF s]
    have g: "getopt_loop2 P E opts (initial_args E) = (Scanned a, [])"
      and t: "type_and_fx2 a = (type', fx2)" by simp_all
    from getopt_loop2_no_t [OF assms g] have "type a = None" by (simp add: initial_args_def)
    with t show "type' = ''fx'' \<and> fx2 = 0" by (simp add: type_and_fx2_def)
  qed
  obtain sc tr where g: "getopt_loop2 P E opts (initial_args E) = (sc, tr)"
    by (cases "getopt_loop2 P E opts (initial_args E)")
  show "main2 P E argv0 opts w
           = (if \<exists>a tr. getopt_loop2 P E opts (initial_args E) = (Scanned a, tr) \<and> config a \<ge> 0
              then (- 1, logerror P ''must specify microcontroller type %s'' @ usage2 argv0, w)
              else main2 P E argv0 (opts @ [Opt_t ''fx'']) w)"
  proof (cases "\<exists>a. sc = Scanned a")
    case False
    with g startup2_early_exit [OF g, of argv0 w] show ?thesis by simp
  next
    case True
    then obtain a where a: "sc = Scanned a" ..
    from getopt_loop2_no_t [OF assms g [unfolded a]] have n: "type a = None"
      by (simp add: initial_args_def)
    from g a have tr: "tr = []" by (auto dest: getopt_loop2_Scanned)
    show ?thesis
    proof (cases "config a \<ge> 0")
      case c: True
      with g a n tr show ?thesis by (simp add: main2_def startup2_def check_args2_def)
    next
      case c: False
      with g a startup2_default_fx [OF n _ g [unfolded a], of argv0 w] show ?thesis by simp
    qed
  qed
qed

theorem missing_type_defaults_to_fx_witness:
  "(\<forall>t. Opt_t t \<notin> set [Opt_D ''04b4:8613'', Opt_I ''fw.hex''])
   \<and> startup2 test_platform (test_env counting_ram counting_eeprom) ''fxload''
        [Opt_D ''04b4:8613'', Opt_I ''fw.hex'']
      = Inr (\<lparr>device_id = Some ''04b4:8613'', firmware_path = Some ''fw.hex'',
              loader_path = None, type = None, config = - 1, verbose = 0\<rparr>,
             ''fw.hex'', Handle_vid_pid 0x04b4 0x8613, ''fx'', 0,
             [Libusb_init, Libusb_set_debug 0, Libusb_open_device_with_vid_pid 0x04b4 0x8613,
              Libusb_claim_interface])
   \<and> main2 test_platform (test_env counting_ram counting_eeprom) ''fxload''
        [Opt_D ''04b4:8613'', Opt_I ''fw.hex''] 0
      = (0,
         [Libusb_init, Libusb_set_debug 0, Libusb_open_device_with_vid_pid 0x04b4 0x8613,
          Libusb_claim_interface,
          Ezusb_load_ram (Handle_vid_pid 0x04b4 0x8613) ''fw.hex'' 0 0 0,
          Libusb_release_interface, Libusb_close, Libusb_exit], 1)
   \<and> main2 test_platform (test_env counting_ram counting_eeprom) ''fxload''
        ([Opt_D ''04b4:8613'', Opt_I ''fw.hex''] @ [Opt_t ''fx'']) 0
      = main2 test_platform (test_env counting_ram counting_eeprom) ''fxload''
        [Opt_D ''04b4:8613'', Opt_I ''fw.hex''] 0"
  using missing_type_defaults_to_fx
    [of "[Opt_D ''04b4:8613'', Opt_I ''fw.hex'']" test_platform
        "test_env counting_ram counting_eeprom" "''fxload''" 0]
  by (simp add: eval_defs)

section \<open>Properties of the firmware image, as the spec describes it\<close>

subsection \<open>The record checksum\<close>

lemma hex_bytes_length: "hex_bytes s = Some bs \<Longrightarrow> length s = 2 * length bs"
  by (induction s arbitrary: bs rule: hex_bytes.induct)
     (auto split: option.splits)

lemma unat_sum_list_byte: "unat (sum_list bs :: byte) = sum_list (map unat bs) mod 256"
proof (induction bs)
  case Nil
  show ?case by simp
next
  case (Cons b bs)
  have "unat (b + sum_list bs) = (unat b + unat (sum_list bs)) mod 256"
    by (simp add: unat_word_ariths)
  also have "\<dots> = (unat b + sum_list (map unat bs) mod 256) mod 256"
    by (simp add: Cons)
  also have "\<dots> = (unat b + sum_list (map unat bs)) mod 256"
    by (simp add: mod_add_right_eq)
  finally show ?case by simp
qed

lemma checksum_sum: "(sum_list (map unat bs) + unat (checksum bs)) mod 256 = 0"
proof -
  have "sum_list (bs @ [checksum bs]) = 0" by (simp add: checksum_def)
  then have "unat (sum_list (bs @ [checksum bs])) = 0" by simp
  then show ?thesis by (simp only: unat_sum_list_byte) simp
qed

lemma parse_record_Inr:
  assumes "parse_record line = Inr r"
  shows "\<exists>digits count hi lo tag rest.
           line = CHR '':'' # digits \<and> hex_bytes digits = Some (count # hi # lo # tag # rest)
           \<and> length rest = unat count + 1
           \<and> last rest = checksum (count # hi # lo # tag # butlast rest)
           \<and> r = \<lparr>recordType = type_of_tag tag, address = word_cat hi lo,
                    payload = butlast rest, checksumValid = True\<rparr>"
  using assms
  by (auto simp: parse_record_def split: list.splits if_splits option.splits)


text \<open>
  Claim C6.  A line is accepted only if its last byte is the checksum of the bytes before
  it: the two's complement of their sum modulo 256, so that the sum of all the bytes of
  the record is 0 modulo 256.  And a line that differs from an accepted one in the
  checksum byte alone, by one bit or more, is refused with \<open>MalformedRecord\<close>: no record
  comes out of it.
\<close>

theorem checksum_enforced:
  "(parse_record line = Inr r \<longrightarrow>
      (\<exists>bs c. hex_bytes (tl line) = Some (bs @ [c]) \<and> c = checksum bs
              \<and> (sum_list (map unat bs) + unat c) mod 256 = 0))
   \<and> (parse_record (CHR '':'' # digits) = Inr r \<and> hex_bytes digits = Some (bs @ [c])
        \<and> hex_bytes digits' = Some (bs @ [c']) \<and> c' \<noteq> c
      \<longrightarrow> parse_record (CHR '':'' # digits') = Inl (MalformedRecord ChecksumMismatch))"
proof (rule conjI; rule impI)
  assume "parse_record line = Inr r"
  from parse_record_Inr [OF this]
  obtain digits count hi lo tag rest where l: "line = CHR '':'' # digits"
    and h: "hex_bytes digits = Some (count # hi # lo # tag # rest)"
    and n: "length rest = unat count + 1"
    and c: "last rest = checksum (count # hi # lo # tag # butlast rest)"
    by blast
  from n have "rest \<noteq> []" by auto
  then have "count # hi # lo # tag # rest = (count # hi # lo # tag # butlast rest) @ [last rest]"
    by simp
  with l h c checksum_sum [of "count # hi # lo # tag # butlast rest"]
  show "\<exists>bs c. hex_bytes (tl line) = Some (bs @ [c]) \<and> c = checksum bs
              \<and> (sum_list (map unat bs) + unat c) mod 256 = 0"
    by (metis list.sel(3))
next
  assume a: "parse_record (CHR '':'' # digits) = Inr r \<and> hex_bytes digits = Some (bs @ [c])
        \<and> hex_bytes digits' = Some (bs @ [c']) \<and> c' \<noteq> c"
  from parse_record_Inr [of "CHR '':'' # digits" r] a
  obtain count hi lo tag rest where h: "bs @ [c] = count # hi # lo # tag # rest"
    and n: "length rest = unat count + 1"
    and c: "last rest = checksum (count # hi # lo # tag # butlast rest)"
    by auto
  from n have ne: "rest \<noteq> []" by auto
  from h ne have bs: "bs = count # hi # lo # tag # butlast rest" and cl: "c = last rest"
    by (metis butlast.simps(2) butlast_snoc list.distinct(1), metis last.simps last_snoc list.distinct(1))
  from a have e: "even (length digits')" by (auto dest: hex_bytes_length)
  have h': "hex_bytes digits' = Some (count # hi # lo # tag # (butlast rest @ [c']))"
    using a bs by simp
  have n': "length (butlast rest @ [c']) = unat count + 1" using n by simp
  from a c cl bs have "c' \<noteq> checksum (count # hi # lo # tag # butlast rest)" by simp
  with e h' n' show "parse_record (CHR '':'' # digits') = Inl (MalformedRecord ChecksumMismatch)"
    by (simp add: parse_record_def)
qed

lemma hex_digit_simps:
  "hex_digit CHR ''0'' = Some 0" "hex_digit CHR ''1'' = Some 1" "hex_digit CHR ''5'' = Some 5"
  "hex_digit CHR ''A'' = Some 10" "hex_digit CHR ''B'' = Some 11" "hex_digit CHR ''F'' = Some 15"
  by (simp_all add: hex_digit_def)

theorem checksum_enforced_witness:
  "parse_record '':0100000055AA''
     = Inr \<lparr>recordType = Data, address = 0, payload = [0x55], checksumValid = True\<rparr>
   \<and> hex_bytes ''0100000055AA'' = Some ([1, 0, 0, 0, 0x55] @ [0xAA])
   \<and> hex_bytes ''0100000055AB'' = Some ([1, 0, 0, 0, 0x55] @ [0xAB])
   \<and> (0xAB :: byte) \<noteq> 0xAA
   \<and> parse_record '':0100000055AB'' = Inl (MalformedRecord ChecksumMismatch)"
  using checksum_enforced
    [of "'':0100000055AA''"
        "\<lparr>recordType = Data, address = 0, payload = [0x55], checksumValid = True\<rparr>"
        "''0100000055AA''" "[1, 0, 0, 0, 0x55]" "0xAA" "''0100000055AB''" "0xAB"]
  by (simp add: parse_record_def hex_digit_simps checksum_def type_of_tag_def word_cat_eq)

subsection \<open>The end-of-file record\<close>

lemma load_lines_no_eof:
  assumes "\<forall>l \<in> set lines. \<forall>r. parse_record l = Inr r \<longrightarrow> recordType r \<noteq> EndOfFile"
  shows "(\<forall>segs. load_lines off closed cur lines \<noteq> Inr segs)
       \<and> ((\<forall>l \<in> set lines. \<exists>r. parse_record l = Inr r)
            \<longrightarrow> load_lines off closed cur lines = Inl TruncatedImage)"
  using assms
proof (induction lines arbitrary: off closed cur)
  case Nil
  show ?case by simp
next
  case (Cons l ls)
  show ?case
  proof (cases "parse_record l")
    case (Inl e)
    then show ?thesis by auto
  next
    case (Inr r)
    with Cons.prems have ne: "recordType r \<noteq> EndOfFile" by simp
    from Cons.prems
    have ih: "\<And>off closed cur. (\<forall>segs. load_lines off closed cur ls \<noteq> Inr segs)
       \<and> ((\<forall>l \<in> set ls. \<exists>r. parse_record l = Inr r)
            \<longrightarrow> load_lines off closed cur ls = Inl TruncatedImage)"
      by (intro Cons.IH) simp
    show ?thesis
    proof (cases "recordType r")
      case Data
      with Inr ih show ?thesis by (cases cur) (simp_all add: Let_def)
    next
      case EndOfFile
      with ne show ?thesis by simp
    next
      case (ExtendedAddress sh)
      with Inr ih show ?thesis by simp
    next
      case Other
      with Inr ih show ?thesis by simp
    qed
  qed
qed

lemma parse_record_examples:
  "parse_record '':0100000055AA''
     = Inr \<lparr>recordType = Data, address = 0, payload = [0x55], checksumValid = True\<rparr>"
  "parse_record '':010001006698''
     = Inr \<lparr>recordType = Data, address = 1, payload = [0x66], checksumValid = True\<rparr>"
  by (simp_all add: parse_record_def hex_digit_def checksum_def type_of_tag_def word_cat_eq)

text \<open>
  Claim C7.  When no line of the input parses to an end-of-file record, the loader never
  returns segments; and when moreover every line parses, however many data records that
  makes, its result is \<open>TruncatedImage\<close>.  (A line that does not parse ends the load with
  its \<open>MalformedRecord\<close> first.)
\<close>

theorem missing_end_of_file:
  assumes "\<forall>l \<in> set lines. \<forall>r. parse_record l = Inr r \<longrightarrow> recordType r \<noteq> EndOfFile"
  shows "(\<forall>segs. FirmwareImageLoader lines \<noteq> Inr segs)
       \<and> ((\<forall>l \<in> set lines. \<exists>r. parse_record l = Inr r)
            \<longrightarrow> FirmwareImageLoader lines = Inl TruncatedImage)"
  unfolding FirmwareImageLoader_def using assms by (rule load_lines_no_eof)

theorem missing_end_of_file_witness:
  "recordType \<lparr>recordType = Data, address = 0, payload = [0x55 :: byte], checksumValid = True\<rparr>
     \<noteq> EndOfFile
   \<and> parse_record '':0100000055AA''
     = Inr \<lparr>recordType = Data, address = 0, payload = [0x55], checksumValid = True\<rparr>
   \<and> FirmwareImageLoader ['':0100000055AA'', '':0100000055AA''] = Inl TruncatedImage"
  using missing_end_of_file [of "['':0100000055AA'', '':0100000055AA'']"]
  by (simp add: parse_record_examples)


text \<open>With the end-of-file record the same two data records load as one segment.\<close>

lemma loader_example:
  "FirmwareImageLoader ['':0100000055AA'', '':010001006698'', '':00000001FF'']
     = Inr [\<lparr>baseAddress = 0, bytes = [0x55, 0x66]\<rparr>]"
  by (simp add: FirmwareImageLoader_def parse_record_examples parse_record_def hex_digit_def
      checksum_def type_of_tag_def word_cat_eq)

section \<open>Properties of the download engine, as the spec describes it\<close>

subsection \<open>Chunked writes\<close>

lemma chunks_Nil: "chunks n a [] = []"
  by (simp add: chunks.simps)

lemma chunks_whole: "bs \<noteq> [] \<Longrightarrow> chunks 0 a bs = [(a, bs)]"
  by (simp add: chunks.simps)

lemma chunks_step:
  "bs \<noteq> [] \<Longrightarrow> n \<noteq> 0 \<Longrightarrow>
     chunks n a bs = (a, take n bs) # chunks n (a + word_of_nat n) (drop n bs)"
  by (subst chunks.simps) simp

lemma concat_chunks: "concat (map snd (chunks n a bs)) = bs"
proof (induction n a bs rule: chunks.induct)
  case (1 n a bs)
  show ?case
  proof (cases "bs = []")
    case True
    then show ?thesis by (simp add: chunks_Nil)
  next
    case False
    show ?thesis
    proof (cases "n = 0")
      case True
      with False show ?thesis by (simp add: chunks_whole)
    next
      case n: False
      with False 1 show ?thesis by (simp add: chunks_step)
    qed
  qed
qed

lemma chunks_bound:
  "(a', c) \<in> set (chunks n a bs) \<Longrightarrow> c \<noteq> [] \<and> (0 < n \<longrightarrow> length c \<le> n)"
proof (induction n a bs rule: chunks.induct)
  case (1 n a bs)
  show ?case
  proof (cases "bs = []")
    case True
    with 1 show ?thesis by (simp add: chunks_Nil)
  next
    case False
    show ?thesis
    proof (cases "n = 0")
      case True
      with False 1 show ?thesis by (simp add: chunks_whole)
    next
      case n: False
      with False 1 show ?thesis by (auto simp: chunks_step)
    qed
  qed
qed

lemma chunks_offset:
  "(a', c) \<in> set (chunks n a bs) \<Longrightarrow>
     \<exists>off. a' = a + word_of_nat off \<and> off + length c \<le> length bs"
proof (induction n a bs rule: chunks.induct)
  case (1 n a bs)
  show ?case
  proof (cases "bs = []")
    case True
    with 1 show ?thesis by (simp add: chunks_Nil)
  next
    case False
    show ?thesis
    proof (cases "n = 0")
      case True
      with False 1 have "a' = a + word_of_nat 0 \<and> 0 + length c \<le> length bs"
        by (simp add: chunks_whole)
      then show ?thesis by blast
    next
      case n: False
      from False n 1(2) consider "a' = a" "c = take n bs"
        | "(a', c) \<in> set (chunks n (a + word_of_nat n) (drop n bs))"
        by (auto simp: chunks_step)
      then show ?thesis
      proof cases
        case 1
        then have "a' = a + word_of_nat 0 \<and> 0 + length c \<le> length bs" by simp
        then show ?thesis by blast
      next
        case 2
        from "1.IH" [OF False n 2] obtain off
          where o: "a' = a + word_of_nat n + word_of_nat off"
            and l: "off + length c \<le> length (drop n bs)" by blast
        from 2 have "c \<noteq> []" by (auto dest: chunks_bound)
        with l have "n + off + length c \<le> length bs" by (cases "n \<le> length bs") auto
        moreover from o have "a' = a + word_of_nat (n + off)" by simp
        ultimately show ?thesis by blast
      qed
    qed
  qed
qed

lemma unat_plus_of_nat:
  "unat (a :: 32 word) + k < 2 ^ 32 \<Longrightarrow> unat (a + word_of_nat k) = unat a + k"
  by (simp add: unat_word_ariths unat_of_nat)

lemma chunks_increasing:
  "unat a + length bs \<le> 2 ^ 32 \<Longrightarrow> sorted_wrt (<) (map (\<lambda>w. unat (fst w)) (chunks n a bs))"
proof (induction n a bs rule: chunks.induct)
  case (1 n a bs)
  show ?case
  proof (cases "bs = []")
    case True
    then show ?thesis by (simp add: chunks_Nil)
  next
    case False
    show ?thesis
    proof (cases "n = 0")
      case True
      with False show ?thesis by (simp add: chunks_whole)
    next
      case n: False
      show ?thesis
      proof (cases "n < length bs")
        case short: False
        with False have "drop n bs = []" by simp
        with False n show ?thesis by (simp add: chunks_step chunks_Nil)
      next
        case True
        with "1.prems" have u: "unat (a + word_of_nat n) = unat a + n"
          by (intro unat_plus_of_nat) simp
        with "1.prems" True have "unat (a + word_of_nat n) + length (drop n bs) \<le> 2 ^ 32"
          by simp
        from "1.IH" [OF False n this]
        have s: "sorted_wrt (<) (map (\<lambda>w. unat (fst w)) (chunks n (a + word_of_nat n) (drop n bs)))" .
        have "unat a < unat a'" if "(a', c) \<in> set (chunks n (a + word_of_nat n) (drop n bs))"
          for a' c
        proof -
          from chunks_offset [OF that] obtain off
            where o: "a' = a + word_of_nat n + word_of_nat off"
              and l: "off + length c \<le> length (drop n bs)" by blast
          from that have "c \<noteq> []" by (auto dest: chunks_bound)
          with l True have b: "n + off < length bs" by (cases c) auto
          from o have "a' = a + word_of_nat (n + off)" by simp
          moreover from b "1.prems" have "unat (a + word_of_nat (n + off)) = unat a + (n + off)"
            by (intro unat_plus_of_nat) simp
          ultimately show ?thesis using n by simp
        qed
        with s False n show ?thesis by (auto simp: chunks_step)
      qed
    qed
  qed
qed


lemma sendControlWrite_accepting:
  "refuses t = (\<lambda>s c. None) \<Longrightarrow> sendControlWrite c t = (None, t\<lparr>sent := sent t @ [c]\<rparr>)"
  by (simp add: sendControlWrite_def)

lemma send_all_accepting:
  "refuses t = (\<lambda>s c. None) \<Longrightarrow> send_all cs t = (None, t\<lparr>sent := sent t @ cs\<rparr>)"
  by (induction cs arbitrary: t) (simp_all add: sendControlWrite_accepting)

lemma run_pass_accepting:
  assumes "refuses t = (\<lambda>s c. None)" and "destination plan = Ram"
  shows "run_pass profile plan t =
           (\<lparr>visited = [Idle, ResetAsserted, Transferring, ResetReleased, Done],
             surfaced = None, release_failure = None\<rparr>,
            t\<lparr>sent := sent t @ reset_assert profile # image_writes profile plan
                         @ [reset_release profile]\<rparr>)"
  using assms
  by (simp add: run_pass_def sendControlWrite_accepting send_all_accepting)

lemma chunks_64_130:
  assumes "length bs = 130"
  shows "chunks 64 a bs = [(a, take 64 bs), (a + 64, take 64 (drop 64 bs)), (a + 128, drop 128 bs)]"
proof -
  from assms have 1: "bs \<noteq> []" "drop 64 bs \<noteq> []" "drop 128 bs \<noteq> []" by auto
  have "chunks 64 a bs = (a, take 64 bs) # chunks 64 (a + 64) (drop 64 bs)"
    using chunks_step [OF 1(1), of 64 a] by simp
  also have "chunks 64 (a + 64) (drop 64 bs)
      = (a + 64, take 64 (drop 64 bs)) # chunks 64 (a + 128) (drop 128 bs)"
    using chunks_step [OF 1(2), of 64 "a + 64"] by (simp add: add.assoc)
  also have "chunks 64 (a + 128) (drop 128 bs) = [(a + 128, drop 128 bs)]"
    using chunks_step [OF 1(3), of 64 "a + 128"] assms by (simp add: chunks_Nil)
  finally show ?thesis .
qed

text \<open>
  Claim C5.  For every Segment and every DeviceProfile, the chunks are consecutive pieces
  of the Segment's bytes, none empty and, when \<^verbatim>\<open>chunkSize\<close> is not 0, none longer than
  \<^verbatim>\<open>chunkSize\<close>; when \<^verbatim>\<open>chunkSize\<close> is 0 the whole Segment is one chunk.  Their addresses
  increase strictly (for a Segment that ends within the 32-bit address space).  On a
  transport that accepts every write, a RAM pass for the Segment issues, between the
  reset-assert and the reset-release write, exactly one write per chunk, in that order.
  With \<^verbatim>\<open>chunkSize = 64\<close> and 130 bytes there are three chunks, of 64, 64 and 2 bytes, at the
  base address, 64 above and 128 above.
\<close>

theorem chunked_segment_writes:
  "concat (map snd (chunks (chunkSize profile) (baseAddress seg) (bytes seg))) = bytes seg
   \<and> (\<forall>(a, c) \<in> set (chunks (chunkSize profile) (baseAddress seg) (bytes seg)).
         c \<noteq> [] \<and> (0 < chunkSize profile \<longrightarrow> length c \<le> chunkSize profile))
   \<and> (chunkSize profile = 0 \<and> bytes seg \<noteq> [] \<longrightarrow>
         chunks (chunkSize profile) (baseAddress seg) (bytes seg)
           = [(baseAddress seg, bytes seg)])
   \<and> (unat (baseAddress seg) + length (bytes seg) \<le> 2 ^ 32 \<longrightarrow>
         sorted_wrt (<)
           (map (\<lambda>w. unat (fst w)) (chunks (chunkSize profile) (baseAddress seg) (bytes seg))))
   \<and> (refuses t = (\<lambda>s c. None) \<longrightarrow>
         issued t (snd (run_pass profile
                          \<lparr>image = [seg], destination = Ram, configByte = None\<rparr> t))
           = reset_assert profile
             # map (\<lambda>(a, c). \<lparr>requestCode = RamChunk, target = a, data = c\<rparr>)
                 (chunks (chunkSize profile) (baseAddress seg) (bytes seg))
             @ [reset_release profile])
   \<and> (chunkSize profile = 64 \<and> length (bytes seg) = 130 \<longrightarrow>
         chunks (chunkSize profile) (baseAddress seg) (bytes seg)
           = [(baseAddress seg, take 64 (bytes seg)),
              (baseAddress seg + 64, take 64 (drop 64 (bytes seg))),
              (baseAddress seg + 128, drop 128 (bytes seg))]
         \<and> map (\<lambda>w. length (snd w)) (chunks (chunkSize profile) (baseAddress seg) (bytes seg))
           = [64, 64, 2])"
proof (intro conjI)
  show "concat (map snd (chunks (chunkSize profile) (baseAddress seg) (bytes seg))) = bytes seg"
    by (rule concat_chunks)
  show "\<forall>(a, c) \<in> set (chunks (chunkSize profile) (baseAddress seg) (bytes seg)).
         c \<noteq> [] \<and> (0 < chunkSize profile \<longrightarrow> length c \<le> chunkSize profile)"
    using chunks_bound by blast
  show "chunkSize profile = 0 \<and> bytes seg \<noteq> [] \<longrightarrow>
         chunks (chunkSize profile) (baseAddress seg) (bytes seg)
           = [(baseAddress seg, bytes seg)]"
    by (simp add: chunks_whole)
  show "unat (baseAddress seg) + length (bytes seg) \<le> 2 ^ 32 \<longrightarrow>
         sorted_wrt (<)
           (map (\<lambda>w. unat (fst w)) (chunks (chunkSize profile) (baseAddress seg) (bytes seg)))"
    using chunks_increasing by blast
  show "refuses t = (\<lambda>s c. None) \<longrightarrow>
         issued t (snd (run_pass profile
                          \<lparr>image = [seg], destination = Ram, configByte = None\<rparr> t))
           = reset_assert profile
             # map (\<lambda>(a, c). \<lparr>requestCode = RamChunk, target = a, data = c\<rparr>)
                 (chunks (chunkSize profile) (baseAddress seg) (bytes seg))
             @ [reset_release profile]"
    by (simp add: run_pass_accepting issued_def image_writes_def segment_writes_def
        chunk_request_def)
  show "chunkSize profile = 64 \<and> length (bytes seg) = 130 \<longrightarrow>
         chunks (chunkSize profile) (baseAddress seg) (bytes seg)
           = [(baseAddress seg, take 64 (bytes seg)),
              (baseAddress seg + 64, take 64 (drop 64 (bytes seg))),
              (baseAddress seg + 128, drop 128 (bytes seg))]
         \<and> map (\<lambda>w. length (snd w)) (chunks (chunkSize profile) (baseAddress seg) (bytes seg))
           = [64, 64, 2]"
    by (auto simp: chunks_64_130)
qed


theorem chunked_segment_writes_witness:
  "chunkSize test_profile = 64 \<and> length (bytes test_segment) = 130
   \<and> refuses test_transport = (\<lambda>s c. None)
   \<and> unat (baseAddress test_segment) + length (bytes test_segment) \<le> 2 ^ 32
   \<and> map (\<lambda>w. (fst w, length (snd w)))
        (chunks (chunkSize test_profile) (baseAddress test_segment) (bytes test_segment))
      = [(0x1000, 64), (0x1040, 64), (0x1080, 2)]
   \<and> map (\<lambda>c. (requestCode c, target c, length (data c)))
        (issued test_transport
           (snd (run_pass test_profile
                   \<lparr>image = [test_segment], destination = Ram, configByte = None\<rparr>
                   test_transport)))
      = [(ResetAssert, 0xE600, 1), (RamChunk, 0x1000, 64), (RamChunk, 0x1040, 64),
         (RamChunk, 0x1080, 2), (ResetRelease, 0xE600, 1)]"
  using chunked_segment_writes [of test_profile test_segment test_transport]
  by (simp add: test_profile_def test_segment_def test_transport_def reset_assert_def
      reset_release_def)

subsection \<open>Reset release after a failed transfer\<close>












end
